theory Spec2Isabelle
  imports Complex_Main "HOL-Library.Word"
begin

section \<open>Values of the platform\<close>

text \<open>
  The relay is a TypeScript program for the Bun runtime. Its two source files are
  \<^verbatim>\<open>src/utils.ts\<close> (schema, URL construction, decryption) and \<^verbatim>\<open>src/index.ts\<close>
  (the HTTP handler \<^verbatim>\<open>fetch\<close>, the three handlers of the client WebSocket and the four
  listeners of the upstream WebSocket). The example \<^verbatim>\<open>encryptPayload\<close> is the encoder that
  matches \<^verbatim>\<open>decryptPayload\<close>.

  A JavaScript number is a double: a finite one is kept as the rational it denotes.
  A WebSocket frame and every string that the program only compares, splits or
  concatenates is a \<^typ>\<open>string\<close>. The plaintext of a payload goes through
  \<^verbatim>\<open>TextEncoder\<close> and \<^verbatim>\<open>TextDecoder\<close> and is kept as what a JavaScript string is, a list of
  UTF-16 code units.
\<close>

type_synonym byte = "8 word"

type_synonym frame = string

datatype number = Finite rat | PosInfinity | NegInfinity | NaN

datatype json =
    JNull
  | JBool bool
  | JNumber number
  | JString string
  | JArray "json list"
  | JObject "(string \<times> json) list"

text \<open>
  What the program takes from its platform and what is not part of its sources is a
  parameter of the model: AES-CBC of \<^verbatim>\<open>crypto.subtle\<close> (key, iv, data; \<open>None\<close> when the
  call rejects), \<^verbatim>\<open>JSON.parse\<close> (\<open>None\<close> when it throws a SyntaxError), the regular
  expression behind zod's \<^verbatim>\<open>z4.hostname()\<close>, and the text of a number that is not a
  small integer.
\<close>

record runtime =
  subtle_encrypt :: "byte list \<Rightarrow> byte list \<Rightarrow> byte list \<Rightarrow> byte list option"
  subtle_decrypt :: "byte list \<Rightarrow> byte list \<Rightarrow> byte list \<Rightarrow> byte list option"
  JSON_parse :: "16 word list \<Rightarrow> json option"
  z4_hostname :: "string \<Rightarrow> bool"
  Number_format :: "rat \<Rightarrow> string"

subsection \<open>Numbers in template literals\<close>

definition digit_char :: "nat \<Rightarrow> char" where
  "digit_char n = ''0123456789'' ! (n mod 10)"

function decimal :: "nat \<Rightarrow> string" where
  "decimal n = (if n < 10 then [digit_char n] else decimal (n div 10) @ [digit_char n])"
  by pat_completeness auto
termination
  by (relation "measure id") auto

text \<open>An integer below \<open>10^21\<close> in absolute value prints as its decimal digits.\<close>

definition int_toString :: "int \<Rightarrow> string" where
  "int_toString i = (if i < 0 then CHR ''-'' # decimal (nat (- i)) else decimal (nat i))"

definition Number_toString :: "runtime \<Rightarrow> number \<Rightarrow> string" where
  "Number_toString rt n =
     (case n of
        NaN \<Rightarrow> ''NaN''
      | PosInfinity \<Rightarrow> ''Infinity''
      | NegInfinity \<Rightarrow> ''-Infinity''
      | Finite q \<Rightarrow>
          (if q = of_int \<lfloor>q\<rfloor> \<and> \<bar>q\<bar> < 10 ^ 21 then int_toString \<lfloor>q\<rfloor>
           else Number_format rt q))"

section \<open>utils.ts\<close>

subsection \<open>The validated descriptor\<close>

datatype guest_type = qemu | lxc

datatype port_value = PortString string | PortNumber number

record WebSocketData =
  vmid :: int
  type :: guest_type
  host :: string
  node :: string
  ticket :: string
  vncticket :: string
  port :: port_value

definition guest_type_string :: "guest_type \<Rightarrow> string" where
  "guest_type_string t = (case t of qemu \<Rightarrow> ''qemu'' | lxc \<Rightarrow> ''lxc'')"

definition port_string :: "runtime \<Rightarrow> port_value \<Rightarrow> string" where
  "port_string rt p = (case p of PortString s \<Rightarrow> s | PortNumber n \<Rightarrow> Number_toString rt n)"

subsection \<open>websocketDataSchema\<close>

text \<open>
  zod is a library and not part of the sources. Each of its combinators is modelled by
  the values it accepts: \<^verbatim>\<open>z4.int()\<close> takes the integers of the safe range,
  \<^verbatim>\<open>.positive()\<close> those above zero, \<^verbatim>\<open>z4.enum\<close> one of the listed strings,
  \<^verbatim>\<open>z4.hostname()\<close> the strings that match its regular expression, \<^verbatim>\<open>z4.string()\<close> any
  string, \<^verbatim>\<open>z4.number()\<close> any finite number. A missing property reads as \<open>None\<close>
  (\<^verbatim>\<open>undefined\<close>). A failing field reports one issue under its name; \<^verbatim>\<open>z4.object\<close>
  takes an object only, checks every field and collects the issues of all of them.
\<close>

datatype issue = Issue string string

type_synonym 'a parsed = "issue list + 'a"

definition MAX_SAFE_INTEGER :: int where
  "MAX_SAFE_INTEGER = 2 ^ 53 - 1"

definition z4_int_positive :: "string \<Rightarrow> json option \<Rightarrow> int parsed" where
  "z4_int_positive path v =
     (case v of
        Some (JNumber (Finite q)) \<Rightarrow>
          (if q \<noteq> of_int \<lfloor>q\<rfloor> then Inl [Issue path ''invalid_type'']
           else if MAX_SAFE_INTEGER < \<lfloor>q\<rfloor> then Inl [Issue path ''too_big'']
           else if \<lfloor>q\<rfloor> \<le> 0 then Inl [Issue path ''too_small'']
           else Inr \<lfloor>q\<rfloor>)
      | _ \<Rightarrow> Inl [Issue path ''invalid_type''])"

definition z4_enum_qemu_lxc :: "string \<Rightarrow> json option \<Rightarrow> guest_type parsed" where
  "z4_enum_qemu_lxc path v =
     (case v of
        Some (JString s) \<Rightarrow>
          (if s = ''qemu'' then Inr qemu
           else if s = ''lxc'' then Inr lxc
           else Inl [Issue path ''invalid_value''])
      | _ \<Rightarrow> Inl [Issue path ''invalid_value''])"

definition z4_hostname_string :: "runtime \<Rightarrow> string \<Rightarrow> json option \<Rightarrow> string parsed" where
  "z4_hostname_string rt path v =
     (case v of
        Some (JString s) \<Rightarrow> (if z4_hostname rt s then Inr s else Inl [Issue path ''invalid_format''])
      | _ \<Rightarrow> Inl [Issue path ''invalid_type''])"

definition z4_string :: "string \<Rightarrow> json option \<Rightarrow> string parsed" where
  "z4_string path v =
     (case v of
        Some (JString s) \<Rightarrow> Inr s
      | _ \<Rightarrow> Inl [Issue path ''invalid_type''])"

definition z4_union_string_number :: "string \<Rightarrow> json option \<Rightarrow> port_value parsed" where
  "z4_union_string_number path v =
     (case v of
        Some (JString s) \<Rightarrow> Inr (PortString s)
      | Some (JNumber (Finite q)) \<Rightarrow> Inr (PortNumber (Finite q))
      | _ \<Rightarrow> Inl [Issue path ''invalid_union''])"

text \<open>One more field of an object: the issues of both sides are kept.\<close>

definition with_field :: "('a \<Rightarrow> 'b) parsed \<Rightarrow> 'a parsed \<Rightarrow> 'b parsed" where
  "with_field f x =
     (case f of
        Inr g \<Rightarrow> (case x of Inr a \<Rightarrow> Inr (g a) | Inl e \<Rightarrow> Inl e)
      | Inl e1 \<Rightarrow> (case x of Inr a \<Rightarrow> Inl e1 | Inl e2 \<Rightarrow> Inl (e1 @ e2)))"

definition websocketDataSchema_parse :: "runtime \<Rightarrow> json \<Rightarrow> WebSocketData parsed" where
  "websocketDataSchema_parse rt input =
     (case input of
        JObject props \<Rightarrow>
          with_field (with_field (with_field (with_field (with_field (with_field (with_field
            (Inr (\<lambda>v t h n tk vt p.
                 \<lparr>vmid = v, type = t, host = h, node = n, ticket = tk, vncticket = vt, port = p\<rparr>))
            (z4_int_positive ''vmid'' (map_of props ''vmid'')))
            (z4_enum_qemu_lxc ''type'' (map_of props ''type'')))
            (z4_hostname_string rt ''host'' (map_of props ''host'')))
            (z4_hostname_string rt ''node'' (map_of props ''node'')))
            (z4_string ''ticket'' (map_of props ''ticket'')))
            (z4_string ''vncticket'' (map_of props ''vncticket'')))
            (z4_union_string_number ''port'' (map_of props ''port''))
      | _ \<Rightarrow> Inl [Issue [] ''invalid_type''])"

subsection \<open>constructWebsocketUrl\<close>

text \<open>
  A \<^verbatim>\<open>URL\<close> object is its components. \<^verbatim>\<open>new URL(`wss://${host}`)\<close> is the URL of scheme
  \<^verbatim>\<open>wss\<close> with that host and the root path; a validated host holds letters, digits,
  hyphens and dots only, so no other component is parsed out of it. The platform's
  normalisation of the host (ASCII lower case) is not modelled.
  \<^verbatim>\<open>searchParams\<close> is the ordered list of name-value pairs.
\<close>

record URL =
  protocol :: string
  hostname :: string
  pathname :: string
  searchParams :: "(string \<times> string) list"

definition new_URL_wss :: "string \<Rightarrow> URL" where
  "new_URL_wss h = \<lparr>protocol = ''wss:'', hostname = h, pathname = ''/'', searchParams = []\<rparr>"


text \<open>
  \<^verbatim>\<open>URLSearchParams.set\<close>: the first pair of that name takes the value and the later
  ones are removed; with no such pair, one is appended.
\<close>

fun searchParams_set :: "(string \<times> string) list \<Rightarrow> string \<Rightarrow> string \<Rightarrow> (string \<times> string) list" where
  "searchParams_set [] name v = [(name, v)]"
| "searchParams_set ((n, w) # ps) name v =
     (if n = name then (n, v) # filter (\<lambda>p. fst p \<noteq> name) ps
      else (n, w) # searchParams_set ps name v)"

definition constructWebsocketUrl :: "runtime \<Rightarrow> WebSocketData \<Rightarrow> URL" where
  "constructWebsocketUrl rt d =
     (let url = new_URL_wss (host d);
          url = url\<lparr>pathname := ''/api2/json/nodes/'' @ node d @ ''/'' @ guest_type_string (type d)
                    @ ''/'' @ int_toString (vmid d) @ ''/vncwebsocket''\<rparr>;
          url = url\<lparr>searchParams := searchParams_set (searchParams url) ''port'' (port_string rt (port d))\<rparr>;
          url = url\<lparr>searchParams := searchParams_set (searchParams url) ''vncticket'' (vncticket d)\<rparr>
      in url)"

subsection \<open>Buffers and text\<close>

text \<open>
  \<^verbatim>\<open>Buffer.from(s, "hex")\<close> reads two hexadecimal digits per byte and stops at the first
  pair that is not two such digits; \<^verbatim>\<open>toString("hex")\<close> writes two lower-case digits per
  byte.
\<close>

definition hex_value :: "char \<Rightarrow> nat option" where
  "hex_value c =
     map_of
       [(CHR ''0'', 0), (CHR ''1'', 1), (CHR ''2'', 2), (CHR ''3'', 3), (CHR ''4'', 4), (CHR ''5'', 5),
        (CHR ''6'', 6), (CHR ''7'', 7), (CHR ''8'', 8), (CHR ''9'', 9), (CHR ''a'', 10), (CHR ''b'', 11),
        (CHR ''c'', 12), (CHR ''d'', 13), (CHR ''e'', 14), (CHR ''f'', 15), (CHR ''A'', 10), (CHR ''B'', 11),
        (CHR ''C'', 12), (CHR ''D'', 13), (CHR ''E'', 14), (CHR ''F'', 15)] c"

fun Buffer_from_hex :: "string \<Rightarrow> byte list" where
  "Buffer_from_hex (a # b # cs) =
     (case hex_value a of
        None \<Rightarrow> []
      | Some h \<Rightarrow>
          (case hex_value b of
             None \<Rightarrow> []
           | Some l \<Rightarrow> of_nat (16 * h + l) # Buffer_from_hex cs))"
| "Buffer_from_hex cs = []"

definition hex_digit :: "nat \<Rightarrow> char" where
  "hex_digit n = ''0123456789abcdef'' ! (n mod 16)"

definition Buffer_toString_hex :: "byte list \<Rightarrow> string" where
  "Buffer_toString_hex bs = concat (map (\<lambda>b. [hex_digit (unat b div 16), hex_digit (unat b)]) bs)"

text \<open>\<^verbatim>\<open>s.split(sep)\<close> for a separator of one character.\<close>

fun String_split :: "char \<Rightarrow> string \<Rightarrow> string list" where
  "String_split sep [] = [[]]"
| "String_split sep (c # cs) =
     (if c = sep then [] # String_split sep cs
      else (case String_split sep cs of
              [] \<Rightarrow> [[c]]
            | w # ws \<Rightarrow> (c # w) # ws))"

text \<open>
  The text that \<^verbatim>\<open>TextEncoder\<close> and \<^verbatim>\<open>TextDecoder\<close> convert is a JavaScript string as it
  is: a list of UTF-16 code units. The encoder reads a surrogate pair as one scalar
  value and a lone surrogate as U+FFFD, and writes UTF-8.
\<close>

definition is_high_surrogate :: "16 word \<Rightarrow> bool" where
  "is_high_surrogate u = (0xD800 \<le> unat u \<and> unat u \<le> 0xDBFF)"

definition is_low_surrogate :: "16 word \<Rightarrow> bool" where
  "is_low_surrogate u = (0xDC00 \<le> unat u \<and> unat u \<le> 0xDFFF)"

definition unit_value :: "16 word \<Rightarrow> nat" where
  "unit_value u = (if is_high_surrogate u \<or> is_low_surrogate u then 0xFFFD else unat u)"

fun scalar_values :: "16 word list \<Rightarrow> nat list" where
  "scalar_values (u # v # us) =
     (if is_high_surrogate u \<and> is_low_surrogate v
      then (0x10000 + (unat u - 0xD800) * 0x400 + (unat v - 0xDC00)) # scalar_values us
      else unit_value u # scalar_values (v # us))"
| "scalar_values [u] = [unit_value u]"
| "scalar_values [] = []"

definition utf8_bytes :: "nat \<Rightarrow> byte list" where
  "utf8_bytes c =
     (if c < 0x80 then [of_nat c]
      else if c < 0x800 then [of_nat (0xC0 + c div 0x40), of_nat (0x80 + c mod 0x40)]
      else if c < 0x10000 then
        [of_nat (0xE0 + c div 0x1000), of_nat (0x80 + c div 0x40 mod 0x40), of_nat (0x80 + c mod 0x40)]
      else
        [of_nat (0xF0 + c div 0x40000), of_nat (0x80 + c div 0x1000 mod 0x40),
         of_nat (0x80 + c div 0x40 mod 0x40), of_nat (0x80 + c mod 0x40)])"

definition TextEncoder_encode :: "16 word list \<Rightarrow> byte list" where
  "TextEncoder_encode s = concat (map utf8_bytes (scalar_values s))"

text \<open>
  The UTF-8 decoder of \<^verbatim>\<open>new TextDecoder()\<close>: the code point read so far, the number of
  bytes still needed and the bounds of the next byte. A byte out of place gives U+FFFD
  and, inside a sequence, is read again as a first byte; so does the end of the input
  inside a sequence.
\<close>

fun utf8_decode :: "nat \<Rightarrow> nat \<Rightarrow> nat \<Rightarrow> nat \<Rightarrow> byte list \<Rightarrow> nat list" where
  "utf8_decode cp needed lower upper [] = (if needed = 0 then [] else [0xFFFD])"
| "utf8_decode cp 0 lower upper (b # bs) =
     (let x = unat b in
      if x \<le> 0x7F then x # utf8_decode 0 0 0x80 0xBF bs
      else if 0xC2 \<le> x \<and> x \<le> 0xDF then utf8_decode (x - 0xC0) 1 0x80 0xBF bs
      else if 0xE0 \<le> x \<and> x \<le> 0xEF then
        utf8_decode (x - 0xE0) 2 (if x = 0xE0 then 0xA0 else 0x80) (if x = 0xED then 0x9F else 0xBF) bs
      else if 0xF0 \<le> x \<and> x \<le> 0xF4 then
        utf8_decode (x - 0xF0) 3 (if x = 0xF0 then 0x90 else 0x80) (if x = 0xF4 then 0x8F else 0xBF) bs
      else 0xFFFD # utf8_decode 0 0 0x80 0xBF bs)"
| "utf8_decode cp (Suc n) lower upper (b # bs) =
     (let x = unat b in
      if x < lower \<or> upper < x then 0xFFFD # utf8_decode 0 0 0x80 0xBF (b # bs)
      else (let cp = cp * 0x40 + (x - 0x80) in
            if n = 0 then cp # utf8_decode 0 0 0x80 0xBF bs
            else utf8_decode cp n 0x80 0xBF bs))"

definition utf16_units :: "nat \<Rightarrow> 16 word list" where
  "utf16_units c =
     (if c < 0x10000 then [of_nat c]
      else [of_nat (0xD800 + (c - 0x10000) div 0x400), of_nat (0xDC00 + (c - 0x10000) mod 0x400)])"

text \<open>The decoder drops a byte order mark at the start of its input.\<close>

definition TextDecoder_decode :: "byte list \<Rightarrow> 16 word list" where
  "TextDecoder_decode bs =
     (let cs = utf8_decode 0 0 0x80 0xBF bs;
          cs = (case cs of [] \<Rightarrow> [] | c # r \<Rightarrow> if c = 0xFEFF then r else cs)
      in concat (map utf16_units cs))"

subsection \<open>decryptPayload\<close>

datatype exn =
    Error string
  | ZodError "issue list"
  | SyntaxError
  | DataError
  | OperationError

text \<open>
  \<^verbatim>\<open>crypto.subtle.importKey("raw", ...)\<close> for AES takes a key of 128, 192 or 256 bits and
  throws a DataError for any other.
\<close>

definition importKey :: "byte list \<Rightarrow> byte list option" where
  "importKey raw = (if length raw = 16 \<or> length raw = 24 \<or> length raw = 32 then Some raw else None)"

text \<open>
  The second argument is \<^verbatim>\<open>process.env.SIGNATURE_KEY\<close>. In
  \<^verbatim>\<open>const [ivHex, encryptedHex] = payload.split(":")\<close> the second name is undefined
  when the payload has no colon, and parts after the second are dropped. An undefined
  or empty string is falsy.
\<close>

definition decryptPayload :: "runtime \<Rightarrow> string option \<Rightarrow> string \<Rightarrow> exn + 16 word list" where
  "decryptPayload rt SIGNATURE_KEY payload =
     (case String_split CHR '':'' payload of
        ivHex # encryptedHex # rest \<Rightarrow>
          (if ivHex = [] \<or> encryptedHex = [] then Inl (Error ''Payload is malformed'')
           else
             (let iv = Buffer_from_hex ivHex;
                  encrypted = Buffer_from_hex encryptedHex
              in case SIGNATURE_KEY of
                   None \<Rightarrow> Inl (Error ''SIGNATURE_KEY environment variable is not set'')
                 | Some k \<Rightarrow>
                     (if k = [] then Inl (Error ''SIGNATURE_KEY environment variable is not set'')
                      else
                        (case importKey (Buffer_from_hex k) of
                           None \<Rightarrow> Inl DataError
                         | Some key \<Rightarrow>
                             (case subtle_decrypt rt key iv encrypted of
                                None \<Rightarrow> Inl OperationError
                              | Some decrypted \<Rightarrow> Inr (TextDecoder_decode decrypted))))))
      | _ \<Rightarrow> Inl (Error ''Payload is malformed''))"

section \<open>The example encoder\<close>

text \<open>
  \<^verbatim>\<open>encryptPayload\<close> of the TypeScript example. Its key is
  \<^verbatim>\<open>process.env.SIGNATURE_KEY || ""\<close>, a string; the sixteen random bytes of
  \<^verbatim>\<open>crypto.getRandomValues\<close> are an argument.
\<close>

definition encryptPayload :: "runtime \<Rightarrow> string \<Rightarrow> byte list \<Rightarrow> 16 word list \<Rightarrow> exn + string" where
  "encryptPayload rt SIGNATURE_KEY iv payload =
     (case importKey (Buffer_from_hex SIGNATURE_KEY) of
        None \<Rightarrow> Inl DataError
      | Some key \<Rightarrow>
          (let encodedPayload = TextEncoder_encode payload
           in case subtle_encrypt rt key iv encodedPayload of
                None \<Rightarrow> Inl OperationError
              | Some encryptedBuffer \<Rightarrow>
                  (let ivHex = Buffer_toString_hex iv;
                       encryptedHex = Buffer_toString_hex encryptedBuffer
                   in Inr (ivHex @ '':'' @ encryptedHex))))"

section \<open>index.ts\<close>

subsection \<open>The map of upstream sockets\<close>

text \<open>
  \<^verbatim>\<open>const sockets = new Map<number, WebSocket>()\<close>. A JavaScript \<^verbatim>\<open>Map\<close> is a list of
  entries in insertion order: \<^verbatim>\<open>set\<close> replaces the value of the entry with that key or
  appends a new entry, \<^verbatim>\<open>delete\<close> removes the entry with that key, \<^verbatim>\<open>get\<close> reads it. A
  WebSocket object is its identity, a natural number.
\<close>

fun Map_get :: "('k \<times> 'v) list \<Rightarrow> 'k \<Rightarrow> 'v option" where
  "Map_get [] k = None"
| "Map_get ((k', v) # m) k = (if k' = k then Some v else Map_get m k)"

fun Map_set :: "('k \<times> 'v) list \<Rightarrow> 'k \<Rightarrow> 'v \<Rightarrow> ('k \<times> 'v) list" where
  "Map_set [] k v = [(k, v)]"
| "Map_set ((k', v') # m) k v = (if k' = k then (k', v) # m else (k', v') # Map_set m k v)"

fun Map_delete :: "('k \<times> 'v) list \<Rightarrow> 'k \<Rightarrow> ('k \<times> 'v) list" where
  "Map_delete [] k = []"
| "Map_delete ((k', v') # m) k = (if k' = k then m else (k', v') # Map_delete m k)"

subsection \<open>The state of the server and what it does\<close>

text \<open>
  A call of the program on a connection, a log line and the creation of an upstream
  WebSocket are recorded in a trace, in the order in which the program makes them.
\<close>

datatype effect =
    console_error string "exn option"
  | new_WebSocket nat URL string
  | ws_send nat frame
  | ws_close nat nat string
  | socket_send nat frame
  | socket_close nat nat string

record ServerWebSocket =
  ws_id :: nat
  data :: WebSocketData

text \<open>
  \<open>listeners\<close> holds, for each upstream WebSocket created by \<^verbatim>\<open>open\<close>, the client
  connection that its four listeners have captured. \<open>closed_ws\<close> holds the client
  connections whose close event has been delivered.
\<close>

record server =
  sockets :: "(int \<times> nat) list"
  listeners :: "(nat \<times> ServerWebSocket) list"
  closed_ws :: "nat list"
  next_id :: nat
  trace :: "effect list"

definition init :: server where
  "init = \<lparr>sockets = [], listeners = [], closed_ws = [], next_id = 0, trace = []\<rparr>"

definition emit :: "effect \<Rightarrow> server \<Rightarrow> server" where
  "emit e s = s\<lparr>trace := trace s @ [e]\<rparr>"

subsection \<open>The handlers of the client connection\<close>

text \<open>\<^verbatim>\<open>websocket.close(ws, code, reason)\<close>.\<close>

definition websocket_close :: "ServerWebSocket \<Rightarrow> nat \<Rightarrow> string \<Rightarrow> server \<Rightarrow> server" where
  "websocket_close ws code reason s =
     (case Map_get (sockets s) (vmid (data ws)) of
        None \<Rightarrow> s
      | Some socket \<Rightarrow>
          (let s = emit (socket_close socket code reason) s
           in s\<lparr>sockets := Map_delete (sockets s) (vmid (data ws))\<rparr>))"

text \<open>
  \<^verbatim>\<open>ws.close(code, reason)\<close> on a client connection is a method of the runtime: it
  sends the close frame and, unless the connection is closed already, delivers the
  close event to the handler above with the same code and reason.
\<close>

definition ServerWebSocket_close :: "ServerWebSocket \<Rightarrow> nat \<Rightarrow> string \<Rightarrow> server \<Rightarrow> server" where
  "ServerWebSocket_close ws code reason s =
     (let s = emit (ws_close (ws_id ws) code reason) s
      in if ws_id ws \<in> set (closed_ws s) then s
         else websocket_close ws code reason (s\<lparr>closed_ws := ws_id ws # closed_ws s\<rparr>))"

text \<open>\<^verbatim>\<open>websocket.message(ws, message)\<close>.\<close>

definition websocket_message :: "ServerWebSocket \<Rightarrow> frame \<Rightarrow> server \<Rightarrow> server" where
  "websocket_message ws message s =
     (case Map_get (sockets s) (vmid (data ws)) of
        None \<Rightarrow>
          (let s = emit (console_error (''Received a message for VM '' @ int_toString (vmid (data ws))
                      @ '' but no socket found. This should not happen.'') None) s
           in ServerWebSocket_close ws 1011 ''Upstream websocket not found'' s)
      | Some socket \<Rightarrow> emit (socket_send socket message) s)"

text \<open>The value of the \<^verbatim>\<open>authorization\<close> header that \<^verbatim>\<open>open\<close> builds from the ticket.\<close>

definition startsWith :: "string \<Rightarrow> string \<Rightarrow> bool" where
  "startsWith s p = (take (length p) s = p)"

definition headers :: "string \<Rightarrow> string" where
  "headers t = (if startsWith t ''PVEAPIToken='' then t else ''PVEAuthCookie='' @ t)"

text \<open>
  \<^verbatim>\<open>websocket.open(ws)\<close>: the new upstream WebSocket takes the next free identity and
  its listeners capture \<open>ws\<close>.
\<close>

definition websocket_open :: "runtime \<Rightarrow> ServerWebSocket \<Rightarrow> server \<Rightarrow> server" where
  "websocket_open rt ws s =
     (let url = constructWebsocketUrl rt (data ws);
          pws = next_id s;
          s = emit (new_WebSocket pws url (headers (ticket (data ws)))) s
      in s\<lparr>next_id := Suc pws, listeners := (pws, ws) # listeners s\<rparr>)"

subsection \<open>The listeners of the upstream connection\<close>

definition pws_open :: "ServerWebSocket \<Rightarrow> nat \<Rightarrow> server \<Rightarrow> server" where
  "pws_open ws pws s = s\<lparr>sockets := Map_set (sockets s) (vmid (data ws)) pws\<rparr>"

definition pws_message :: "ServerWebSocket \<Rightarrow> frame \<Rightarrow> server \<Rightarrow> server" where
  "pws_message ws d s = emit (ws_send (ws_id ws) d) s"

definition pws_error :: "ServerWebSocket \<Rightarrow> server \<Rightarrow> server" where
  "pws_error ws s = ServerWebSocket_close ws 1011 ''Upstream websocket error'' s"

definition pws_close :: "ServerWebSocket \<Rightarrow> nat \<Rightarrow> server \<Rightarrow> server" where
  "pws_close ws code s = ServerWebSocket_close ws code ''Upstream websocket closed'' s"

subsection \<open>fetch\<close>

text \<open>
  A request is its method (\<open>http_method\<close>) and the value of its \<^verbatim>\<open>payload\<close> query parameter (\<open>None\<close>
  when there is none). A response is its status and the three members of its JSON
  body.
\<close>

record request =
  http_method :: string
  payload_param :: "string option"

record Response =
  status :: nat
  error :: string
  code :: nat
  issues :: "issue list"

text \<open>
  \<^verbatim>\<open>server.upgrade(request, { data })\<close> belongs to the runtime: it makes the client
  connection that carries \<open>data\<close> and delivers its open event to \<^verbatim>\<open>websocket.open\<close>.
\<close>

definition server_upgrade :: "runtime \<Rightarrow> WebSocketData \<Rightarrow> server \<Rightarrow> server" where
  "server_upgrade rt d s =
     (let ws = \<lparr>ws_id = next_id s, data = d\<rparr>
      in websocket_open rt ws (s\<lparr>next_id := Suc (next_id s)\<rparr>))"

text \<open>The \<^verbatim>\<open>catch\<close> block of \<^verbatim>\<open>fetch\<close>.\<close>

definition fetch_catch :: "exn \<Rightarrow> server \<Rightarrow> Response option \<times> server" where
  "fetch_catch e s =
     (let s = emit (console_error ''An error occurred while trying to process a request:'' (Some e)) s
      in case e of
           ZodError is \<Rightarrow>
             (Some \<lparr>status = 400, error = ''Invalid payload'', code = 400, issues = is\<rparr>, s)
         | _ \<Rightarrow>
             (Some \<lparr>status = 500, error = ''Internal server error'', code = 500, issues = []\<rparr>, s))"

text \<open>
  The result is the response, or \<open>None\<close> for \<^verbatim>\<open>undefined\<close> after the upgrade, and the
  state of the server after the call.
\<close>

definition fetch :: "runtime \<Rightarrow> string option \<Rightarrow> request \<Rightarrow> server \<Rightarrow> Response option \<times> server" where
  "fetch rt SIGNATURE_KEY request s =
     (if http_method request \<noteq> ''GET'' then
        (Some \<lparr>status = 405, error = ''Method not allowed. Supported methods: GET'', code = 405,
                issues = []\<rparr>, s)
      else
        (case payload_param request of
           None \<Rightarrow>
             (Some \<lparr>status = 400, error = ''Missing payload'', code = 400, issues = []\<rparr>, s)
         | Some encryptedPayload \<Rightarrow>
             (if encryptedPayload = [] then
                (Some \<lparr>status = 400, error = ''Missing payload'', code = 400, issues = []\<rparr>, s)
              else
                (case decryptPayload rt SIGNATURE_KEY encryptedPayload of
                   Inl e \<Rightarrow> fetch_catch e s
                 | Inr decryptedPayload \<Rightarrow>
                     (case JSON_parse rt decryptedPayload of
                        None \<Rightarrow> fetch_catch SyntaxError s
                      | Some json \<Rightarrow>
                          (case websocketDataSchema_parse rt json of
                             Inl is \<Rightarrow> fetch_catch (ZodError is) s
                           | Inr d \<Rightarrow> (None, server_upgrade rt d s)))))))"

subsection \<open>Events\<close>

text \<open>
  The runtime calls the program once per event: a request, a frame or the close of a
  client connection, and the four events of an upstream WebSocket, which go to the
  listeners registered on it. A closed client connection gets no more events.
\<close>

datatype event =
    Request request
  | Client_message ServerWebSocket frame
  | Client_close ServerWebSocket nat string
  | Upstream_open nat
  | Upstream_message nat frame
  | Upstream_error nat
  | Upstream_close nat nat

definition step :: "runtime \<Rightarrow> string option \<Rightarrow> event \<Rightarrow> server \<Rightarrow> server" where
  "step rt env e s =
     (case e of
        Request r \<Rightarrow> snd (fetch rt env r s)
      | Client_message ws m \<Rightarrow>
          (if ws_id ws \<in> set (closed_ws s) then s else websocket_message ws m s)
      | Client_close ws c r \<Rightarrow>
          (if ws_id ws \<in> set (closed_ws s) then s
           else websocket_close ws c r (s\<lparr>closed_ws := ws_id ws # closed_ws s\<rparr>))
      | Upstream_open pws \<Rightarrow>
          (case Map_get (listeners s) pws of None \<Rightarrow> s | Some ws \<Rightarrow> pws_open ws pws s)
      | Upstream_message pws d \<Rightarrow>
          (case Map_get (listeners s) pws of None \<Rightarrow> s | Some ws \<Rightarrow> pws_message ws d s)
      | Upstream_error pws \<Rightarrow>
          (case Map_get (listeners s) pws of None \<Rightarrow> s | Some ws \<Rightarrow> pws_error ws s)
      | Upstream_close pws c \<Rightarrow>
          (case Map_get (listeners s) pws of None \<Rightarrow> s | Some ws \<Rightarrow> pws_close ws c s))"

fun run :: "runtime \<Rightarrow> string option \<Rightarrow> event list \<Rightarrow> server \<Rightarrow> server" where
  "run rt env [] s = s"
| "run rt env (e # es) s = run rt env es (step rt env e s)"

section \<open>Test doubles and the data of the tests\<close>

text \<open>The valid descriptor of \<^verbatim>\<open>utils.test.ts\<close> and \<^verbatim>\<open>index.test.ts\<close>.\<close>

definition validData :: WebSocketData where
  "validData = \<lparr>vmid = 1000, type = qemu, host = ''pve01.example.com'', node = ''pve01'',
                 ticket = ''PVEAPIToken=test-token'', vncticket = ''vnc-ticket-123'',
                 port = PortNumber (Finite 5900)\<rparr>"

text \<open>
  The same descriptor as the text that \<^verbatim>\<open>JSON.stringify\<close> gives for it, and as the
  object that \<^verbatim>\<open>JSON.parse\<close> gives for that text.
\<close>

definition ascii :: "string \<Rightarrow> 16 word list" where
  "ascii s = map (\<lambda>c. of_nat (of_char c mod 128)) s"

definition validText :: "16 word list" where
  "validText = ascii ''{\"vmid\":1000,\"type\":\"qemu\",\"host\":\"pve01.example.com\",\"node\":\"pve01\",\"ticket\":\"PVEAPIToken=test-token\",\"vncticket\":\"vnc-ticket-123\",\"port\":5900}''"

definition validJson :: json where
  "validJson = JObject
     [(''vmid'', JNumber (Finite 1000)), (''type'', JString ''qemu''),
      (''host'', JString ''pve01.example.com''), (''node'', JString ''pve01''),
      (''ticket'', JString ''PVEAPIToken=test-token''), (''vncticket'', JString ''vnc-ticket-123''),
      (''port'', JNumber (Finite 5900))]"

text \<open>
  A runtime to run the model on concrete inputs. Its cipher is not AES: it shifts every
  byte by one and appends one byte, and undoes that. Its hostnames are the non-empty
  strings of letters, digits, hyphens and dots. Its \<^verbatim>\<open>JSON.parse\<close> knows one text, the
  descriptor above. It has no text for a number that is not a small integer.
\<close>

definition example_hostname :: "string \<Rightarrow> bool" where
  "example_hostname h =
     (h \<noteq> [] \<and> list_all (\<lambda>c. c \<in> set ''abcdefghijklmnopqrstuvwxyzABCDEFGHIJKLMNOPQRSTUVWXYZ0123456789-.'') h)"

definition example_runtime :: runtime where
  "example_runtime =
     \<lparr>subtle_encrypt = (\<lambda>key iv d. if length iv = 16 then Some (map (\<lambda>b. b + 1) d @ [16]) else None),
      subtle_decrypt = (\<lambda>key iv d. if length iv = 16 \<and> d \<noteq> [] then Some (map (\<lambda>b. b - 1) (butlast d)) else None),
      JSON_parse = (\<lambda>t. if t = validText then Some validJson else None),
      z4_hostname = example_hostname,
      Number_format = (\<lambda>q. [])\<rparr>"

text \<open>
  The key of the tests, an initialisation vector of sixteen zero bytes, and the wire
  string that the example encoder makes of the descriptor with them.
\<close>

definition test_key :: string where
  "test_key = ''0123456789abcdef0123456789abcdef0123456789abcdef0123456789abcdef''"

definition zero_iv :: "byte list" where
  "zero_iv = [0, 0, 0, 0, 0, 0, 0, 0, 0, 0, 0, 0, 0, 0, 0, 0]"

definition validPayload :: string where
  "validPayload =
     (case encryptPayload example_runtime test_key zero_iv validText of Inr w \<Rightarrow> w | Inl e \<Rightarrow> [])"

text \<open>
  The request with that payload and the two client connections that the first two
  upgrades make. The states of the server: after the first request (the client is
  connection 0, its upstream WebSocket is 1), after the open event of that upstream
  WebSocket, after two requests for the same guest (the second client is connection
  2, its upstream WebSocket is 3), and after the open events of both upstream
  WebSockets, the first one first.
\<close>

definition validRequest :: request where
  "validRequest = \<lparr>http_method = ''GET'', payload_param = Some validPayload\<rparr>"

definition first_client :: ServerWebSocket where
  "first_client = \<lparr>ws_id = 0, data = validData\<rparr>"

definition second_client :: ServerWebSocket where
  "second_client = \<lparr>ws_id = 2, data = validData\<rparr>"

definition connecting :: server where
  "connecting = run example_runtime (Some test_key) [Request validRequest] init"

definition active :: server where
  "active = run example_runtime (Some test_key) [Upstream_open 1] connecting"

definition two_connecting :: server where
  "two_connecting = run example_runtime (Some test_key) [Request validRequest] connecting"


section \<open>Predicates of the properties\<close>

text \<open>
  The port as the specification words it: it parses to a positive integer. A number
  does when it is an integer above zero, a string when it is a non-empty row of decimal
  digits whose value is above zero.
\<close>

definition digits_value :: "string \<Rightarrow> nat option" where
  "digits_value s =
     (if s \<noteq> [] \<and> list_all (\<lambda>c. c \<in> set ''0123456789'') s
      then Some (foldl (\<lambda>n c. 10 * n + (of_char c - 48)) 0 s) else None)"

definition port_is_positive_integer :: "port_value \<Rightarrow> bool" where
  "port_is_positive_integer p =
     (case p of
        PortNumber (Finite q) \<Rightarrow> q = of_int \<lfloor>q\<rfloor> \<and> 0 < q
      | PortNumber _ \<Rightarrow> False
      | PortString s \<Rightarrow> (case digits_value s of None \<Rightarrow> False | Some n \<Rightarrow> 0 < n))"

text \<open>
  What the round trip asks of the platform's AES-CBC: with a key of 128, 192 or 256
  bits and an initialisation vector of 16 bytes, encryption gives a ciphertext, which is
  not empty, and decryption of that ciphertext gives the data back.
\<close>

definition AES_CBC :: "runtime \<Rightarrow> bool" where
  "AES_CBC rt =
     (\<forall>key iv d. (length key = 16 \<or> length key = 24 \<or> length key = 32) \<and> length iv = 16 \<longrightarrow>
        (\<exists>c. subtle_encrypt rt key iv d = Some c \<and> c \<noteq> [] \<and> subtle_decrypt rt key iv c = Some d))"

text \<open>
  Unicode scalar values, and the strings that are well-formed UTF-16: every surrogate
  is part of a pair, high before low.
\<close>

definition scalar :: "nat \<Rightarrow> bool" where
  "scalar c = (c < 0xD800 \<or> (0xE000 \<le> c \<and> c < 0x110000))"

fun well_formed :: "16 word list \<Rightarrow> bool" where
  "well_formed (u # v # us) =
     (if is_high_surrogate u \<and> is_low_surrogate v then well_formed us
      else \<not> is_high_surrogate u \<and> \<not> is_low_surrogate u \<and> well_formed (v # us))"
| "well_formed [u] = (\<not> is_high_surrogate u \<and> \<not> is_low_surrogate u)"
| "well_formed [] = True"

text \<open>
  No event of \<open>es\<close>, run from \<open>s\<close>, is the open event of an upstream WebSocket whose
  listeners belong to a client of guest \<open>v\<close>.
\<close>

fun no_open_for :: "runtime \<Rightarrow> string option \<Rightarrow> int \<Rightarrow> event list \<Rightarrow> server \<Rightarrow> bool" where
  "no_open_for rt env v [] s = True"
| "no_open_for rt env v (e # es) s =
     ((case e of
         Upstream_open p \<Rightarrow>
           (case Map_get (listeners s) p of None \<Rightarrow> True | Some ws \<Rightarrow> vmid (data ws) \<noteq> v)
       | _ \<Rightarrow> True)
      \<and> no_open_for rt env v es (step rt env e s))"

section \<open>Properties\<close>

subsection \<open>The target URL\<close>




subsection \<open>The schema\<close>

lemma with_field_Inr:
  "with_field f x = Inr y \<longleftrightarrow> (\<exists>g a. f = Inr g \<and> x = Inr a \<and> y = g a)"
  by (auto simp: with_field_def split: sum.splits)

lemma with_field_Inl:
  "with_field f x = Inl is \<Longrightarrow> (\<And>e. f = Inl e \<Longrightarrow> e \<noteq> []) \<Longrightarrow> (\<And>e. x = Inl e \<Longrightarrow> e \<noteq> []) \<Longrightarrow> is \<noteq> []"
  by (auto simp: with_field_def split: sum.splits)

lemma z4_int_positive_Inr:
  "z4_int_positive path v = Inr n \<longleftrightarrow>
     v = Some (JNumber (Finite (of_int n))) \<and> 0 < n \<and> n \<le> MAX_SAFE_INTEGER"
  by (auto simp: z4_int_positive_def split: option.splits json.splits number.splits)

lemma z4_int_positive_Inl: "z4_int_positive path v = Inl e \<Longrightarrow> e \<noteq> []"
  by (auto simp: z4_int_positive_def split: option.splits json.splits number.splits if_splits)

lemma z4_enum_Inr:
  "z4_enum_qemu_lxc path v = Inr t \<longleftrightarrow> v = Some (JString (guest_type_string t))"
  by (cases t) (auto simp: z4_enum_qemu_lxc_def guest_type_string_def split: option.splits json.splits)

lemma z4_enum_Inl: "z4_enum_qemu_lxc path v = Inl e \<Longrightarrow> e \<noteq> []"
  by (auto simp: z4_enum_qemu_lxc_def split: option.splits json.splits if_splits)

lemma z4_hostname_Inr:
  "z4_hostname_string rt path v = Inr h \<longleftrightarrow> v = Some (JString h) \<and> z4_hostname rt h"
  by (auto simp: z4_hostname_string_def split: option.splits json.splits)

lemma z4_hostname_Inl: "z4_hostname_string rt path v = Inl e \<Longrightarrow> e \<noteq> []"
  by (auto simp: z4_hostname_string_def split: option.splits json.splits if_splits)

lemma z4_string_Inr: "z4_string path v = Inr h \<longleftrightarrow> v = Some (JString h)"
  by (auto simp: z4_string_def split: option.splits json.splits)

lemma z4_string_Inl: "z4_string path v = Inl e \<Longrightarrow> e \<noteq> []"
  by (auto simp: z4_string_def split: option.splits json.splits if_splits)

lemma z4_union_Inr:
  "z4_union_string_number path v = Inr p \<longleftrightarrow>
     (\<exists>s. v = Some (JString s) \<and> p = PortString s) \<or> (\<exists>q. v = Some (JNumber (Finite q)) \<and> p = PortNumber (Finite q))"
  by (auto simp: z4_union_string_number_def split: option.splits json.splits number.splits)

lemma z4_union_Inl: "z4_union_string_number path v = Inl e \<Longrightarrow> e \<noteq> []"
  by (auto simp: z4_union_string_number_def split: option.splits json.splits number.splits if_splits)

lemma with_field_InrE:
  assumes "with_field f x = Inr y"
  obtains g a where "f = Inr g" and "x = Inr a" and "y = g a"
  using assms by (auto simp: with_field_Inr)

lemma with_field_Inr_Inr [simp]: "with_field (Inr g) (Inr a) = Inr (g a)"
  by (simp add: with_field_def)

lemma parse_Inr:
  "websocketDataSchema_parse rt j = Inr d \<longleftrightarrow>
     (\<exists>props. j = JObject props
        \<and> map_of props ''vmid'' = Some (JNumber (Finite (of_int (vmid d))))
        \<and> 0 < vmid d \<and> vmid d \<le> MAX_SAFE_INTEGER
        \<and> map_of props ''type'' = Some (JString (guest_type_string (type d)))
        \<and> map_of props ''host'' = Some (JString (host d)) \<and> z4_hostname rt (host d)
        \<and> map_of props ''node'' = Some (JString (node d)) \<and> z4_hostname rt (node d)
        \<and> map_of props ''ticket'' = Some (JString (ticket d))
        \<and> map_of props ''vncticket'' = Some (JString (vncticket d))
        \<and> (map_of props ''port'' = Some (case port d of PortString s \<Rightarrow> JString s | PortNumber n \<Rightarrow> JNumber n))
        \<and> (\<forall>n. port d = PortNumber n \<longrightarrow> (\<exists>q. n = Finite q)))"
  (is "?l \<longleftrightarrow> ?r")
proof
  assume l: ?l
  then obtain props where j: "j = JObject props"
    by (cases j) (simp_all add: websocketDataSchema_parse_def)
  from l show ?r
    unfolding j websocketDataSchema_parse_def json.case
    by (elim with_field_InrE)
       (auto simp: z4_int_positive_Inr z4_enum_Inr z4_hostname_Inr z4_string_Inr z4_union_Inr)
next
  assume r: ?r
  then obtain props where j: "j = JObject props" by blast
  from r j have "z4_int_positive ''vmid'' (map_of props ''vmid'') = Inr (vmid d)"
    and "z4_enum_qemu_lxc ''type'' (map_of props ''type'') = Inr (type d)"
    and "z4_hostname_string rt ''host'' (map_of props ''host'') = Inr (host d)"
    and "z4_hostname_string rt ''node'' (map_of props ''node'') = Inr (node d)"
    and "z4_string ''ticket'' (map_of props ''ticket'') = Inr (ticket d)"
    and "z4_string ''vncticket'' (map_of props ''vncticket'') = Inr (vncticket d)"
    and "z4_union_string_number ''port'' (map_of props ''port'') = Inr (port d)"
    by (auto simp: z4_int_positive_Inr z4_enum_Inr z4_hostname_Inr z4_string_Inr z4_union_Inr
        split: port_value.splits)
  then show ?l
    unfolding j websocketDataSchema_parse_def json.case by simp
qed

lemma parse_Inl: "websocketDataSchema_parse rt j = Inl is \<Longrightarrow> is \<noteq> []"
proof (cases j)
  case (JObject props)
  assume "websocketDataSchema_parse rt j = Inl is"
  then show ?thesis
    unfolding JObject websocketDataSchema_parse_def json.case
    by (elim with_field_Inl z4_int_positive_Inl z4_enum_Inl z4_hostname_Inl z4_string_Inl z4_union_Inl) simp
qed (auto simp add: websocketDataSchema_parse_def)

text \<open>
  C2, as the specification states it, fails: the schema takes the descriptor of the
  tests with the port \<^verbatim>\<open>"not-a-port"\<close>, which does not parse to a positive integer.
\<close>

theorem port_not_checked_counterexample:
  "websocketDataSchema_parse example_runtime
     (JObject
       [(''vmid'', JNumber (Finite 1000)), (''type'', JString ''qemu''),
        (''host'', JString ''pve01.example.com''), (''node'', JString ''pve01''),
        (''ticket'', JString ''PVEAPIToken=test-token''), (''vncticket'', JString ''vnc-ticket-123''),
        (''port'', JString ''not-a-port'')])
     = Inr (validData\<lparr>port := PortString ''not-a-port''\<rparr>)
   \<and> \<not> port_is_positive_integer (PortString ''not-a-port'')"
  by (simp add: websocketDataSchema_parse_def with_field_def z4_int_positive_def
        z4_enum_qemu_lxc_def z4_hostname_string_def z4_string_def z4_union_string_number_def
        MAX_SAFE_INTEGER_def example_runtime_def example_hostname_def validData_def
        port_is_positive_integer_def digits_value_def)

text \<open>
  C2, amended. The schema accepts a value, and returns the descriptor \<open>d\<close>, if and only
  if the value is an object whose \<^verbatim>\<open>vmid\<close> is an integer above zero and not above
  \<open>2^53 - 1\<close>, whose \<^verbatim>\<open>type\<close> is \<^verbatim>\<open>qemu\<close> or \<^verbatim>\<open>lxc\<close>, whose \<^verbatim>\<open>host\<close> and \<^verbatim>\<open>node\<close> are
  strings that match the hostname format, whose \<^verbatim>\<open>ticket\<close> and \<^verbatim>\<open>vncticket\<close> are strings
  and whose \<^verbatim>\<open>port\<close> is any string or any finite number, and \<open>d\<close> holds these seven
  values. Every other value is rejected as a whole, with at least one issue.
\<close>

theorem validator_accepts_iff:
  "(websocketDataSchema_parse rt j = Inr d \<longleftrightarrow>
     (\<exists>props. j = JObject props
        \<and> map_of props ''vmid'' = Some (JNumber (Finite (of_int (vmid d))))
        \<and> 0 < vmid d \<and> vmid d \<le> MAX_SAFE_INTEGER
        \<and> map_of props ''type'' = Some (JString (guest_type_string (type d)))
        \<and> map_of props ''host'' = Some (JString (host d)) \<and> z4_hostname rt (host d)
        \<and> map_of props ''node'' = Some (JString (node d)) \<and> z4_hostname rt (node d)
        \<and> map_of props ''ticket'' = Some (JString (ticket d))
        \<and> map_of props ''vncticket'' = Some (JString (vncticket d))
        \<and> map_of props ''port'' =
            Some (case port d of PortString s \<Rightarrow> JString s | PortNumber n \<Rightarrow> JNumber n)
        \<and> (\<forall>n. port d = PortNumber n \<longrightarrow> (\<exists>q. n = Finite q))))
   \<and> (\<forall>is. websocketDataSchema_parse rt j = Inl is \<longrightarrow> is \<noteq> [])"
  using parse_Inr [of rt j d] parse_Inl [of rt j] by blast

lemma example_hostnames:
  "example_hostname ''pve01.example.com''" "example_hostname ''pve01''"
  by (simp_all add: example_hostname_def)

theorem validator_accepts_iff_witness:
  "websocketDataSchema_parse example_runtime validJson = Inr validData
   \<and> websocketDataSchema_parse example_runtime (JObject [(''vmid'', JNumber (Finite 1000)), (''type'', JString ''qemu'')])
       = Inl [Issue ''host'' ''invalid_type'', Issue ''node'' ''invalid_type'',
              Issue ''ticket'' ''invalid_type'', Issue ''vncticket'' ''invalid_type'',
              Issue ''port'' ''invalid_union'']"
proof -
  have "websocketDataSchema_parse example_runtime validJson = Inr validData"
    using validator_accepts_iff [of example_runtime validJson validData] example_hostnames
    by (simp add: validJson_def validData_def guest_type_string_def MAX_SAFE_INTEGER_def
        example_runtime_def)
  moreover have "websocketDataSchema_parse example_runtime
       (JObject [(''vmid'', JNumber (Finite 1000)), (''type'', JString ''qemu'')])
       = Inl [Issue ''host'' ''invalid_type'', Issue ''node'' ''invalid_type'',
              Issue ''ticket'' ''invalid_type'', Issue ''vncticket'' ''invalid_type'',
              Issue ''port'' ''invalid_union'']"
    by (simp add: websocketDataSchema_parse_def with_field_def z4_int_positive_def
        z4_enum_qemu_lxc_def z4_hostname_string_def z4_string_def z4_union_string_number_def
        MAX_SAFE_INTEGER_def)
  ultimately show ?thesis by simp
qed

subsection \<open>The round trip of the payload\<close>

lemma below_16:
  "n < 16 \<Longrightarrow> n = 15 \<or> n = 14 \<or> n = 13 \<or> n = 12 \<or> n = 11 \<or> n = 10 \<or> n = 9 \<or> n = 8
     \<or> n = 7 \<or> n = 6 \<or> n = 5 \<or> n = 4 \<or> n = 3 \<or> n = 2 \<or> n = 1 \<or> n = (0::nat)"
  by presburger

lemma hex_value_hex_digit: "n < 16 \<Longrightarrow> hex_value (hex_digit n) = Some n"
  by (drule below_16) (elim disjE; simp add: hex_value_def hex_digit_def)

lemma hex_digit_not_colon: "hex_digit n \<noteq> CHR '':''"
proof -
  have "n mod 16 < 16" by simp
  then show ?thesis
    unfolding hex_digit_def by (drule_tac below_16) (elim disjE; simp)
qed

lemma byte_of_nibbles: "(of_nat (16 * (unat b div 16) + unat b mod 16) :: byte) = b"
  by simp

lemma unat_byte_div16: "unat (b :: byte) div 16 < 16"
proof -
  have "unat b < 256" using unsigned_less [of b] by simp
  then show ?thesis by simp
qed

lemma hex_digit_mod: "hex_digit n = hex_digit (n mod 16)"
  by (simp add: hex_digit_def)

lemma Buffer_hex_round_trip: "Buffer_from_hex (Buffer_toString_hex bs) = bs"
proof (induction bs)
  case Nil
  then show ?case by (simp add: Buffer_toString_hex_def)
next
  case (Cons b bs)
  have 1: "hex_value (hex_digit (unat b div 16)) = Some (unat b div 16)"
    by (rule hex_value_hex_digit) (rule unat_byte_div16)
  have 2: "hex_value (hex_digit (unat b)) = Some (unat b mod 16)"
    by (subst hex_digit_mod) (simp add: hex_value_hex_digit)
  from Cons show ?case
    by (simp add: Buffer_toString_hex_def 1 2)
qed

lemma Buffer_toString_hex_no_colon: "CHR '':'' \<notin> set (Buffer_toString_hex bs)"
  by (induction bs) (simp_all add: Buffer_toString_hex_def hex_digit_not_colon [symmetric])

lemma Buffer_toString_hex_empty: "Buffer_toString_hex bs = [] \<longleftrightarrow> bs = []"
  by (cases bs) (simp_all add: Buffer_toString_hex_def)

lemma String_split_no_sep: "sep \<notin> set p \<Longrightarrow> String_split sep p = [p]"
  by (induction p) auto

lemma String_split_two:
  "sep \<notin> set a \<Longrightarrow> sep \<notin> set b \<Longrightarrow> String_split sep (a @ sep # b) = [a, b]"
  by (induction a) (auto simp: String_split_no_sep)

lemma unat_byte: "n < 256 \<Longrightarrow> unat (of_nat n :: byte) = n"
  by (simp add: unat_of_nat)

lemma first_of_two:
  "0xC2 \<le> unat b \<Longrightarrow> unat b \<le> 0xDF \<Longrightarrow>
   utf8_decode cp 0 lo up (b # bs) = utf8_decode (unat b - 0xC0) (Suc 0) 0x80 0xBF bs"
  by (simp add: Let_def)

lemma first_of_three:
  "0xE0 \<le> unat b \<Longrightarrow> unat b \<le> 0xEF \<Longrightarrow>
   utf8_decode cp 0 lo up (b # bs) =
     utf8_decode (unat b - 0xE0) (Suc (Suc 0)) (if unat b = 0xE0 then 0xA0 else 0x80)
       (if unat b = 0xED then 0x9F else 0xBF) bs"
  by (simp add: Let_def numeral_2_eq_2)

lemma first_of_four:
  "0xF0 \<le> unat b \<Longrightarrow> unat b \<le> 0xF4 \<Longrightarrow>
   utf8_decode cp 0 lo up (b # bs) =
     utf8_decode (unat b - 0xF0) (Suc (Suc (Suc 0))) (if unat b = 0xF0 then 0x90 else 0x80)
       (if unat b = 0xF4 then 0x8F else 0xBF) bs"
  by (simp add: Let_def numeral_3_eq_3)

lemma continuation_last:
  "lo \<le> unat b \<Longrightarrow> unat b \<le> up \<Longrightarrow>
   utf8_decode cp (Suc 0) lo up (b # bs) = (cp * 0x40 + (unat b - 0x80)) # utf8_decode 0 0 0x80 0xBF bs"
  by (simp add: Let_def)

lemma continuation_more:
  "lo \<le> unat b \<Longrightarrow> unat b \<le> up \<Longrightarrow>
   utf8_decode cp (Suc (Suc n)) lo up (b # bs) =
     utf8_decode (cp * 0x40 + (unat b - 0x80)) (Suc n) 0x80 0xBF bs"
  by (simp add: Let_def)

lemma utf8_one:
  assumes "c < 0x80"
  shows "utf8_decode 0 0 0x80 0xBF (utf8_bytes c @ bs) = c # utf8_decode 0 0 0x80 0xBF bs"
  using assms by (simp add: utf8_bytes_def unat_byte Let_def)

lemma utf8_two:
  assumes "0x80 \<le> c" and "c < 0x800"
  shows "utf8_decode 0 0 0x80 0xBF (utf8_bytes c @ bs) = c # utf8_decode 0 0 0x80 0xBF bs"
proof -
  define a where "a = c div 0x40"
  define r where "r = c mod 0x40"
  have c: "a * 0x40 + r = c" by (simp add: a_def r_def)
  have a: "2 \<le> a" "a < 32" using assms by (simp_all add: a_def)
  have r: "r < 64" by (simp add: r_def)
  define B1 :: byte where "B1 = of_nat (0xC0 + a)"
  have b1: "unat B1 = 0xC0 + a" unfolding B1_def by (rule unat_byte) (use a in simp)
  define B2 :: byte where "B2 = of_nat (0x80 + r)"
  have b2: "unat B2 = 0x80 + r" unfolding B2_def by (rule unat_byte) (use r in simp)
  have "utf8_bytes c = [B1, B2]"
    using assms by (simp add: utf8_bytes_def a_def r_def B1_def B2_def)
  then have "utf8_decode 0 0 0x80 0xBF (utf8_bytes c @ bs) = utf8_decode 0 0 0x80 0xBF (B1 # B2 # bs)"
    by simp
  also have "\<dots> = utf8_decode a (Suc 0) 0x80 0xBF (B2 # bs)"
    by (subst first_of_two) (use a in \<open>simp_all add: b1\<close>)
  also have "\<dots> = (a * 0x40 + r) # utf8_decode 0 0 0x80 0xBF bs"
    by (subst continuation_last) (use r in \<open>simp_all add: b2\<close>)
  finally show ?thesis by (simp only: c)
qed

lemma div_4096: "(c::nat) div 0x1000 = c div 0x40 div 0x40"
  by (simp add: div_mult2_eq [symmetric])

lemma div_262144: "(c::nat) div 0x40000 = c div 0x40 div 0x40 div 0x40"
  by (simp add: div_mult2_eq [symmetric])

lemma utf8_three:
  assumes "0x800 \<le> c" and "c < 0x10000" and "scalar c"
  shows "utf8_decode 0 0 0x80 0xBF (utf8_bytes c @ bs) = c # utf8_decode 0 0 0x80 0xBF bs"
proof -
  define a where "a = c div 0x40 div 0x40"
  define m where "m = c div 0x40 mod 0x40"
  define r where "r = c mod 0x40"
  have am: "a * 0x40 + m = c div 0x40" by (simp add: a_def m_def)
  have c: "(a * 0x40 + m) * 0x40 + r = c" unfolding am r_def by simp
  have a: "a < 16" using assms(2) by (simp add: a_def div_4096 [symmetric])
  have m: "m < 64" by (simp add: m_def)
  have r: "r < 64" by (simp add: r_def)
  have lo: "32 \<le> m" if "a = 0" using that assms(1) c r by simp
  have hi: "m < 32" if "a = 13"
  proof (rule ccontr)
    assume "\<not> m < 32"
    then have "0xD800 \<le> c" using c that by simp
    moreover have "c < 0xE000" using c that m r by simp
    ultimately show False using assms(3) by (simp add: scalar_def)
  qed
  define B1 :: byte where "B1 = of_nat (0xE0 + a)"
  have b1: "unat B1 = 0xE0 + a" unfolding B1_def by (rule unat_byte) (use a in simp)
  define B2 :: byte where "B2 = of_nat (0x80 + m)"
  have b2: "unat B2 = 0x80 + m" unfolding B2_def by (rule unat_byte) (use m in simp)
  define B3 :: byte where "B3 = of_nat (0x80 + r)"
  have b3: "unat B3 = 0x80 + r" unfolding B3_def by (rule unat_byte) (use r in simp)
  have "utf8_bytes c = [B1, B2, B3]"
    using assms by (simp add: utf8_bytes_def div_4096 a_def m_def r_def B1_def B2_def B3_def)
  then have "utf8_decode 0 0 0x80 0xBF (utf8_bytes c @ bs) =
      utf8_decode 0 0 0x80 0xBF (B1 # B2 # B3 # bs)"
    by simp
  also have "\<dots> = utf8_decode a (Suc (Suc 0)) (if a = 0 then 0xA0 else 0x80)
      (if a = 13 then 0x9F else 0xBF) (B2 # B3 # bs)"
    by (subst first_of_three) (use a in \<open>simp_all add: b1\<close>)
  also have "\<dots> = utf8_decode (a * 0x40 + m) (Suc 0) 0x80 0xBF (B3 # bs)"
    by (subst continuation_more) (use m lo hi in \<open>auto simp add: b2\<close>)
  also have "\<dots> = ((a * 0x40 + m) * 0x40 + r) # utf8_decode 0 0 0x80 0xBF bs"
    by (subst continuation_last) (use r in \<open>simp_all add: b3\<close>)
  finally show ?thesis by (simp only: c)
qed

lemma utf8_four:
  assumes "0x10000 \<le> c" and "c < 0x110000"
  shows "utf8_decode 0 0 0x80 0xBF (utf8_bytes c @ bs) = c # utf8_decode 0 0 0x80 0xBF bs"
proof -
  define a where "a = c div 0x40 div 0x40 div 0x40"
  define m where "m = c div 0x40 div 0x40 mod 0x40"
  define n where "n = c div 0x40 mod 0x40"
  define r where "r = c mod 0x40"
  have am: "a * 0x40 + m = c div 0x40 div 0x40" by (simp add: a_def m_def)
  have amn: "(a * 0x40 + m) * 0x40 + n = c div 0x40" unfolding am n_def by simp
  have c: "((a * 0x40 + m) * 0x40 + n) * 0x40 + r = c" unfolding amn r_def by simp
  have a: "a < 5" using assms(2) by (simp add: a_def div_262144 [symmetric])
  have m: "m < 64" by (simp add: m_def)
  have n: "n < 64" by (simp add: n_def)
  have r: "r < 64" by (simp add: r_def)
  have lo: "16 \<le> m" if "a = 0" using that assms(1) c n r by simp
  have hi: "m < 16" if "a = 4" using that assms(2) c by simp
  define B1 :: byte where "B1 = of_nat (0xF0 + a)"
  have b1: "unat B1 = 0xF0 + a" unfolding B1_def by (rule unat_byte) (use a in simp)
  define B2 :: byte where "B2 = of_nat (0x80 + m)"
  have b2: "unat B2 = 0x80 + m" unfolding B2_def by (rule unat_byte) (use m in simp)
  define B3 :: byte where "B3 = of_nat (0x80 + n)"
  have b3: "unat B3 = 0x80 + n" unfolding B3_def by (rule unat_byte) (use n in simp)
  define B4 :: byte where "B4 = of_nat (0x80 + r)"
  have b4: "unat B4 = 0x80 + r" unfolding B4_def by (rule unat_byte) (use r in simp)
  have "utf8_bytes c = [B1, B2, B3, B4]"
    using assms
    by (simp add: utf8_bytes_def div_4096 div_262144 a_def m_def n_def r_def B1_def B2_def B3_def
        B4_def)
  then have "utf8_decode 0 0 0x80 0xBF (utf8_bytes c @ bs) =
      utf8_decode 0 0 0x80 0xBF (B1 # B2 # B3 # B4 # bs)"
    by simp
  also have "\<dots> = utf8_decode a (Suc (Suc (Suc 0))) (if a = 0 then 0x90 else 0x80)
      (if a = 4 then 0x8F else 0xBF) (B2 # B3 # B4 # bs)"
    by (subst first_of_four) (use a in \<open>simp_all add: b1\<close>)
  also have "\<dots> = utf8_decode (a * 0x40 + m) (Suc (Suc 0)) 0x80 0xBF (B3 # B4 # bs)"
    by (subst continuation_more) (use m lo hi in \<open>auto simp add: b2\<close>)
  also have "\<dots> = utf8_decode ((a * 0x40 + m) * 0x40 + n) (Suc 0) 0x80 0xBF (B4 # bs)"
    by (subst continuation_more) (use n in \<open>simp_all add: b3\<close>)
  also have "\<dots> = (((a * 0x40 + m) * 0x40 + n) * 0x40 + r) # utf8_decode 0 0 0x80 0xBF bs"
    by (subst continuation_last) (use r in \<open>simp_all add: b4\<close>)
  finally show ?thesis by (simp only: c)
qed

lemma utf8_char:
  assumes "scalar c"
  shows "utf8_decode 0 0 0x80 0xBF (utf8_bytes c @ bs) = c # utf8_decode 0 0 0x80 0xBF bs"
proof -
  consider "c < 0x80" | "0x80 \<le> c" "c < 0x800" | "0x800 \<le> c" "c < 0x10000"
    | "0x10000 \<le> c" "c < 0x110000"
    using assms unfolding scalar_def by linarith
  then show ?thesis
    using assms by cases (simp_all add: utf8_one utf8_two utf8_three utf8_four)
qed

lemma utf8_round_trip:
  "list_all scalar cs \<Longrightarrow> utf8_decode 0 0 0x80 0xBF (concat (map utf8_bytes cs)) = cs"
  by (induction cs) (simp_all add: utf8_char)

lemma unat_unit: "unat (u :: 16 word) < 0x10000"
  using unsigned_less [of u] by simp

lemma pair_value:
  assumes "is_high_surrogate u" and "is_low_surrogate v"
  defines "c \<equiv> 0x10000 + (unat u - 0xD800) * 0x400 + (unat v - 0xDC00)"
  shows "scalar c" and "utf16_units c = [u, v]"
proof -
  define h where "h = unat u - 0xD800"
  define l where "l = unat v - 0xDC00"
  have h: "h < 0x400" "unat u = 0xD800 + h"
    using assms(1) unfolding is_high_surrogate_def h_def by linarith+
  have l: "l < 0x400" "unat v = 0xDC00 + l"
    using assms(2) unfolding is_low_surrogate_def l_def by linarith+
  have c: "c = 0x10000 + (h * 0x400 + l)"
    by (simp add: c_def h_def l_def)
  show "scalar c"
    using h(1) l(1) by (simp add: c scalar_def)
  have "(h * 0x400 + l) div 0x400 = h" "(h * 0x400 + l) mod 0x400 = l"
    using l(1) by simp_all
  then have "utf16_units c = [of_nat (unat u), of_nat (unat v)]"
    by (simp add: utf16_units_def c h(2) l(2))
  then show "utf16_units c = [u, v]"
    by simp
qed

lemma single_value:
  assumes "\<not> is_high_surrogate u" and "\<not> is_low_surrogate u"
  shows "scalar (unit_value u)" and "utf16_units (unit_value u) = [u]"
proof -
  have v: "unit_value u = unat u"
    using assms by (simp add: unit_value_def)
  show "scalar (unit_value u)"
    using assms unat_unit [of u]
    by (auto simp: v scalar_def is_high_surrogate_def is_low_surrogate_def)
  show "utf16_units (unit_value u) = [u]"
    using unat_unit [of u] by (simp add: v utf16_units_def)
qed

lemma well_formed_scalar: "well_formed P \<Longrightarrow> list_all scalar (scalar_values P)"
  by (induction P rule: scalar_values.induct) (auto simp: pair_value single_value split: if_splits)

lemma utf16_round_trip: "well_formed P \<Longrightarrow> concat (map utf16_units (scalar_values P)) = P"
  by (induction P rule: scalar_values.induct) (auto simp: pair_value single_value split: if_splits)

lemma first_scalar_value:
  assumes "well_formed P"
  shows "scalar_values P = [] \<longleftrightarrow> P = []"
    and "P \<noteq> [] \<Longrightarrow> hd P \<noteq> 0xFEFF \<Longrightarrow> hd (scalar_values P) \<noteq> 0xFEFF"
proof -
  show "scalar_values P = [] \<longleftrightarrow> P = []"
    by (cases P rule: scalar_values.cases) simp_all
  assume "P \<noteq> []" and bom: "hd P \<noteq> 0xFEFF"
  then obtain u us where P: "P = u # us" by (cases P) auto
  have u: "unat u \<noteq> 0xFEFF"
  proof
    assume "unat u = 0xFEFF"
    then have "of_nat (unat u) = (of_nat 0xFEFF :: 16 word)" by simp
    then show False using bom P by simp
  qed
  show "hd (scalar_values P) \<noteq> 0xFEFF"
  proof (cases us)
    case Nil
    with assms P u show ?thesis by (simp add: unit_value_def)
  next
    case (Cons v vs)
    with assms P u show ?thesis
      by (auto simp: unit_value_def is_high_surrogate_def split: if_splits)
  qed
qed

lemma text_round_trip:
  assumes "well_formed P" and "P = [] \<or> hd P \<noteq> 0xFEFF"
  shows "TextDecoder_decode (TextEncoder_encode P) = P"
proof -
  let ?cs = "scalar_values P"
  have dec: "utf8_decode 0 0 0x80 0xBF (TextEncoder_encode P) = ?cs"
    unfolding TextEncoder_encode_def using assms(1) by (intro utf8_round_trip well_formed_scalar)
  have keep: "(case ?cs of [] \<Rightarrow> [] | c # r \<Rightarrow> if c = 0xFEFF then r else ?cs) = ?cs"
  proof (cases ?cs)
    case Nil
    then show ?thesis by simp
  next
    case (Cons c r)
    then have "P \<noteq> []" by auto
    with assms first_scalar_value(2) [of P] Cons show ?thesis by auto
  qed
  show ?thesis
    unfolding TextDecoder_decode_def dec Let_def keep
    using assms(1) by (rule utf16_round_trip)
qed

lemma decrypt_of_encrypt:
  assumes "AES_CBC rt" and "length (Buffer_from_hex K) = 32" and "length iv = 16"
  shows "\<exists>w. encryptPayload rt K iv P = Inr w
           \<and> decryptPayload rt (Some K) w = Inr (TextDecoder_decode (TextEncoder_encode P))"
proof -
  let ?key = "Buffer_from_hex K"
  from assms obtain c where c: "subtle_encrypt rt ?key iv (TextEncoder_encode P) = Some c"
    "c \<noteq> []" "subtle_decrypt rt ?key iv c = Some (TextEncoder_encode P)"
    unfolding AES_CBC_def by blast
  have key: "importKey ?key = Some ?key"
    using assms(2) by (simp add: importKey_def)
  have K: "K \<noteq> []"
    using assms(2) by auto
  have iv: "iv \<noteq> []"
    using assms(3) by auto
  let ?w = "Buffer_toString_hex iv @ '':'' @ Buffer_toString_hex c"
  have enc: "encryptPayload rt K iv P = Inr ?w"
    by (simp add: encryptPayload_def key c)
  have split: "String_split CHR '':'' ?w = [Buffer_toString_hex iv, Buffer_toString_hex c]"
    using String_split_two [OF Buffer_toString_hex_no_colon Buffer_toString_hex_no_colon] by simp
  have "decryptPayload rt (Some K) ?w = Inr (TextDecoder_decode (TextEncoder_encode P))"
    unfolding decryptPayload_def split
    by (simp add: Buffer_toString_hex_empty iv c K key Buffer_hex_round_trip)
  with enc show ?thesis by blast
qed

lemma AES_CBC_example: "AES_CBC example_runtime"
  by (simp add: AES_CBC_def example_runtime_def comp_def)

lemma key32: "length (Buffer_from_hex test_key) = 32"
  by (simp add: test_key_def hex_value_def)

lemma iv16: "length zero_iv = 16"
  by (simp add: zero_iv_def)

lemma enc_bytes: "TextEncoder_encode [0xD800] = [0xEF, 0xBF, 0xBD]"
  by (simp add: TextEncoder_encode_def unit_value_def is_high_surrogate_def utf8_bytes_def)

lemma dec_FFFD: "utf8_decode 0 0 0x80 0xBF [0xEF, 0xBF, 0xBD] = [0xFFFD]"
proof -
  have "utf8_decode 0 0 0x80 0xBF [0xEF, 0xBF, 0xBD] =
      utf8_decode 15 (Suc (Suc 0)) 0x80 0xBF [0xBF, 0xBD]"
    by (subst first_of_three) simp_all
  also have "\<dots> = utf8_decode 1023 (Suc 0) 0x80 0xBF [0xBD]"
    by (subst continuation_more) simp_all
  also have "\<dots> = [0xFFFD]"
    by (subst continuation_last) simp_all
  finally show ?thesis .
qed

lemma dec_bytes: "TextDecoder_decode [0xEF, 0xBF, 0xBD] = [0xFFFD]"
  unfolding TextDecoder_decode_def dec_FFFD Let_def by (simp add: utf16_units_def)

lemma hex_iv: "Buffer_toString_hex zero_iv = ''00000000000000000000000000000000''"
  by (simp add: Buffer_toString_hex_def zero_iv_def hex_digit_def)

lemma hex_ct: "Buffer_toString_hex [0xF0, 0xC0, 0xBE, 0x10] = ''f0c0be10''"
  by (simp add: Buffer_toString_hex_def hex_digit_def)

text \<open>
  C4, as the specification states it, fails for a plaintext with a lone surrogate:
  \<^verbatim>\<open>TextEncoder\<close> writes U+FFFD for it, and that is what the decoder reads back. The
  cipher plays no part in this.
\<close>

theorem lone_surrogate_counterexample:
  "encryptPayload example_runtime test_key zero_iv [0xD800] =
     Inr ''00000000000000000000000000000000:f0c0be10''
   \<and> decryptPayload example_runtime (Some test_key) ''00000000000000000000000000000000:f0c0be10'' =
     Inr [0xFFFD]"
proof -
  have key: "importKey (Buffer_from_hex test_key) = Some (Buffer_from_hex test_key)"
    by (simp add: importKey_def key32)
  have enc: "encryptPayload example_runtime test_key zero_iv [0xD800] =
     Inr ''00000000000000000000000000000000:f0c0be10''"
    unfolding encryptPayload_def key enc_bytes Let_def
    by (simp add: example_runtime_def iv16 hex_iv hex_ct)
  have split: "String_split CHR '':'' ''00000000000000000000000000000000:f0c0be10'' =
      [Buffer_toString_hex zero_iv, Buffer_toString_hex [0xF0, 0xC0, 0xBE, 0x10]]"
    unfolding hex_iv hex_ct by simp
  have ivne: "zero_iv \<noteq> []"
    by (simp add: zero_iv_def)
  have k: "test_key \<noteq> []"
    by (simp add: test_key_def)
  have sub: "subtle_decrypt example_runtime (Buffer_from_hex test_key) zero_iv [0xF0, 0xC0, 0xBE, 0x10]
      = Some [0xEF, 0xBF, 0xBD]"
    by (simp add: example_runtime_def iv16)
  have dec: "decryptPayload example_runtime (Some test_key) ''00000000000000000000000000000000:f0c0be10'' =
     Inr [0xFFFD]"
    unfolding decryptPayload_def split
    by (simp add: Buffer_hex_round_trip Buffer_toString_hex_empty key k sub dec_bytes ivne)
  from enc dec show ?thesis by simp
qed

text \<open>
  C4, amended. Let the platform's AES-CBC decrypt what it encrypts. For every plaintext
  that is well-formed UTF-16 and does not begin with U+FEFF, every key of 256 bits and
  every initialisation vector of 16 bytes, \<^verbatim>\<open>encryptPayload\<close> returns a wire string, and
  \<^verbatim>\<open>decryptPayload\<close> with the same key returns the plaintext from it.
\<close>

theorem payload_round_trip:
  assumes "AES_CBC rt" and "length (Buffer_from_hex K) = 32" and "length iv = 16"
    and "well_formed P" and "P = [] \<or> hd P \<noteq> 0xFEFF"
  shows "\<exists>w. encryptPayload rt K iv P = Inr w \<and> decryptPayload rt (Some K) w = Inr P"
  using decrypt_of_encrypt [OF assms(1,2,3), of P] text_round_trip [OF assms(4,5)] by simp

theorem payload_round_trip_witness:
  "AES_CBC example_runtime
   \<and> well_formed [0x7B, 0xE9, 0x20AC, 0xD83D, 0xDE00, 0x7D]
   \<and> (\<exists>w. encryptPayload example_runtime test_key zero_iv [0x7B, 0xE9, 0x20AC, 0xD83D, 0xDE00, 0x7D] = Inr w
        \<and> decryptPayload example_runtime (Some test_key) w = Inr [0x7B, 0xE9, 0x20AC, 0xD83D, 0xDE00, 0x7D])"
proof -
  have wf: "well_formed [0x7B, 0xE9, 0x20AC, 0xD83D, 0xDE00, 0x7D]"
    by (simp add: is_high_surrogate_def is_low_surrogate_def)
  have bom: "[0x7B, 0xE9, 0x20AC, 0xD83D, 0xDE00, 0x7D] = [] \<or>
      hd [0x7B, 0xE9, 0x20AC, 0xD83D, 0xDE00, 0x7D] \<noteq> (0xFEFF :: 16 word)"
    by simp
  from payload_round_trip [OF AES_CBC_example key32 iv16 wf bom] AES_CBC_example wf
  show ?thesis by simp
qed

subsection \<open>Requests with a payload that cannot be read\<close>

lemma decryptPayload_no_colon:
  "CHR '':'' \<notin> set p \<Longrightarrow> decryptPayload rt env p = Inl (Error ''Payload is malformed'')"
  by (simp add: decryptPayload_def String_split_no_sep)

lemma decryptPayload_not_ZodError: "decryptPayload rt env p \<noteq> Inl (ZodError is)"
  by (simp add: decryptPayload_def Let_def split: option.splits list.splits)

lemma fetch_catch_500:
  "\<forall>is. e \<noteq> ZodError is \<Longrightarrow>
   fetch_catch e s =
     (Some \<lparr>status = 500, error = ''Internal server error'', code = 500, issues = []\<rparr>,
      emit (console_error ''An error occurred while trying to process a request:'' (Some e)) s)"
  by (cases e) (simp_all add: fetch_catch_def)

text \<open>
  C1, as the specification states it, fails: the request with the payload
  \<^verbatim>\<open>not-a-valid-payload\<close> gets the status 500 and the body of an internal error, not 400.
  The state of the server changes by one log line only.
\<close>

theorem malformed_payload_counterexample:
  "fetch example_runtime (Some test_key)
     \<lparr>http_method = ''GET'', payload_param = Some ''not-a-valid-payload''\<rparr> init =
   (Some \<lparr>status = 500, error = ''Internal server error'', code = 500, issues = []\<rparr>,
    init\<lparr>trace := [console_error ''An error occurred while trying to process a request:''
                      (Some (Error ''Payload is malformed''))]\<rparr>)"
  by (simp add: fetch_def decryptPayload_no_colon fetch_catch_def emit_def init_def)

text \<open>
  C1, amended. A payload without a colon makes \<^verbatim>\<open>decryptPayload\<close> throw the error
  \<^verbatim>\<open>Payload is malformed\<close>. Whenever \<^verbatim>\<open>decryptPayload\<close> throws, and whenever the decrypted
  text is not JSON, the response has the status 500 and the body
  \<^verbatim>\<open>{error: "Internal server error", code: 500, issues: []}\<close>; the error is logged, no
  client connection is made and the map of sockets is as before. The status 400 is
  the answer to a request without a payload and to a payload that the schema rejects,
  then with the issues of the schema.
\<close>

theorem malformed_payload_rejected:
  "(CHR '':'' \<notin> set p \<longrightarrow> decryptPayload rt env p = Inl (Error ''Payload is malformed''))
   \<and> (p \<noteq> [] \<and> decryptPayload rt env p = Inl e \<longrightarrow>
        fetch rt env \<lparr>http_method = ''GET'', payload_param = Some p\<rparr> s =
          (Some \<lparr>status = 500, error = ''Internal server error'', code = 500, issues = []\<rparr>,
           emit (console_error ''An error occurred while trying to process a request:'' (Some e)) s))
   \<and> (p \<noteq> [] \<and> decryptPayload rt env p = Inr t \<and> JSON_parse rt t = None \<longrightarrow>
        fetch rt env \<lparr>http_method = ''GET'', payload_param = Some p\<rparr> s =
          (Some \<lparr>status = 500, error = ''Internal server error'', code = 500, issues = []\<rparr>,
           emit (console_error ''An error occurred while trying to process a request:'' (Some SyntaxError)) s))
   \<and> (p \<noteq> [] \<and> decryptPayload rt env p = Inr t \<and> JSON_parse rt t = Some j
        \<and> websocketDataSchema_parse rt j = Inl is \<longrightarrow>
        fetch rt env \<lparr>http_method = ''GET'', payload_param = Some p\<rparr> s =
          (Some \<lparr>status = 400, error = ''Invalid payload'', code = 400, issues = is\<rparr>,
           emit (console_error ''An error occurred while trying to process a request:'' (Some (ZodError is))) s))
   \<and> (p = [] \<longrightarrow>
        fetch rt env \<lparr>http_method = ''GET'', payload_param = Some p\<rparr> s =
          (Some \<lparr>status = 400, error = ''Missing payload'', code = 400, issues = []\<rparr>, s))
   \<and> fetch rt env \<lparr>http_method = ''GET'', payload_param = None\<rparr> s =
          (Some \<lparr>status = 400, error = ''Missing payload'', code = 400, issues = []\<rparr>, s)"
proof -
  have "decryptPayload rt env p = Inl e \<Longrightarrow> \<forall>is. e \<noteq> ZodError is"
    using decryptPayload_not_ZodError [of rt env p] by auto
  then have "decryptPayload rt env p = Inl e \<Longrightarrow> fetch_catch e s =
     (Some \<lparr>status = 500, error = ''Internal server error'', code = 500, issues = []\<rparr>,
      emit (console_error ''An error occurred while trying to process a request:'' (Some e)) s)"
    by (rule fetch_catch_500)
  moreover have "fetch_catch SyntaxError s =
     (Some \<lparr>status = 500, error = ''Internal server error'', code = 500, issues = []\<rparr>,
      emit (console_error ''An error occurred while trying to process a request:'' (Some SyntaxError)) s)"
    by (simp add: fetch_catch_def)
  moreover have "fetch_catch (ZodError is) s =
     (Some \<lparr>status = 400, error = ''Invalid payload'', code = 400, issues = is\<rparr>,
      emit (console_error ''An error occurred while trying to process a request:'' (Some (ZodError is))) s)"
    by (simp add: fetch_catch_def)
  ultimately show ?thesis
    by (simp add: fetch_def decryptPayload_no_colon)
qed

theorem malformed_payload_rejected_witness:
  "CHR '':'' \<notin> set ''not-a-valid-payload''
   \<and> decryptPayload example_runtime (Some test_key) ''not-a-valid-payload'' =
       Inl (Error ''Payload is malformed'')
   \<and> fetch example_runtime (Some test_key)
        \<lparr>http_method = ''GET'', payload_param = Some ''not-a-valid-payload''\<rparr> active =
       (Some \<lparr>status = 500, error = ''Internal server error'', code = 500, issues = []\<rparr>,
        emit (console_error ''An error occurred while trying to process a request:''
                (Some (Error ''Payload is malformed''))) active)
   \<and> fetch example_runtime (Some test_key) \<lparr>http_method = ''GET'', payload_param = Some []\<rparr> active =
       (Some \<lparr>status = 400, error = ''Missing payload'', code = 400, issues = []\<rparr>, active)"
  using malformed_payload_rejected
     [of "''not-a-valid-payload''" example_runtime "Some test_key" "Error ''Payload is malformed''"
        active]
     malformed_payload_rejected [of "[]" example_runtime "Some test_key" _ active]
  by simp

subsection \<open>The states of the examples\<close>

lemma well_formed_ascii: "well_formed (ascii s)"
proof -
  have low: "\<not> is_high_surrogate (of_nat (n mod 128))" "\<not> is_low_surrogate (of_nat (n mod 128))"
    for n :: nat
  proof -
    have "n mod 128 < 128" by simp
    then have "unat (of_nat (n mod 128) :: 16 word) < 128"
      by (simp add: unat_of_nat)
    then show "\<not> is_high_surrogate (of_nat (n mod 128))" "\<not> is_low_surrogate (of_nat (n mod 128))"
      by (simp_all add: is_high_surrogate_def is_low_surrogate_def)
  qed
  show ?thesis
    unfolding ascii_def
    by (induction s rule: induct_list012) (simp_all add: low)
qed

lemma ascii_no_bom: "ascii s = [] \<or> hd (ascii s) \<noteq> 0xFEFF"
proof (cases s)
  case Nil
  then show ?thesis by (simp add: ascii_def)
next
  case (Cons c cs)
  have "of_char c mod 128 < (128::nat)" by simp
  then have "unat (of_nat (of_char c mod 128) :: 16 word) < 128"
    by (simp add: unat_of_nat)
  then have "(of_nat (of_char c mod 128) :: 16 word) \<noteq> 0xFEFF"
    by auto
  with Cons show ?thesis by (simp add: ascii_def)
qed

lemma validPayload:
  "validPayload \<noteq> []"
  "decryptPayload example_runtime (Some test_key) validPayload = Inr validText"
proof -
  from decrypt_of_encrypt [OF AES_CBC_example key32 iv16, of validText]
  obtain w where w: "encryptPayload example_runtime test_key zero_iv validText = Inr w"
    "decryptPayload example_runtime (Some test_key) w =
       Inr (TextDecoder_decode (TextEncoder_encode validText))"
    by blast
  have "TextDecoder_decode (TextEncoder_encode validText) = validText"
    unfolding validText_def by (rule text_round_trip) (rule well_formed_ascii ascii_no_bom)+
  with w have dec: "decryptPayload example_runtime (Some test_key) validPayload = Inr validText"
    by (simp add: validPayload_def)
  then show "decryptPayload example_runtime (Some test_key) validPayload = Inr validText" .
  show "validPayload \<noteq> []"
  proof
    assume "validPayload = []"
    with dec show False by (simp add: decryptPayload_def)
  qed
qed

lemma JSON_parse_validText: "JSON_parse example_runtime validText = Some validJson"
  by (simp add: example_runtime_def)

lemma parse_validJson: "websocketDataSchema_parse example_runtime validJson = Inr validData"
  unfolding parse_Inr
  by (simp add: validJson_def validData_def guest_type_string_def MAX_SAFE_INTEGER_def
      example_runtime_def example_hostname_def)

lemma fetch_validRequest:
  "fetch example_runtime (Some test_key) validRequest s =
     (None, server_upgrade example_runtime validData s)"
  by (simp add: fetch_def validRequest_def validPayload JSON_parse_validText parse_validJson)

lemma connecting:
  "connecting =
     \<lparr>sockets = [], listeners = [(1, first_client)], closed_ws = [], next_id = 2,
      trace = [new_WebSocket 1 (constructWebsocketUrl example_runtime validData)
                 ''PVEAPIToken=test-token'']\<rparr>"
  by (simp add: connecting_def step_def fetch_validRequest server_upgrade_def websocket_open_def
      init_def emit_def first_client_def Let_def)
     (simp add: validData_def headers_def startsWith_def)

lemma active:
  "active =
     \<lparr>sockets = [(1000, 1)], listeners = [(1, first_client)], closed_ws = [], next_id = 2,
      trace = [new_WebSocket 1 (constructWebsocketUrl example_runtime validData)
                 ''PVEAPIToken=test-token'']\<rparr>"
  by (simp add: active_def connecting step_def pws_open_def first_client_def)
     (simp add: validData_def)

lemma two_connecting:
  "two_connecting =
     \<lparr>sockets = [], listeners = [(3, second_client), (1, first_client)], closed_ws = [],
      next_id = 4,
      trace = [new_WebSocket 1 (constructWebsocketUrl example_runtime validData)
                 ''PVEAPIToken=test-token'',
               new_WebSocket 3 (constructWebsocketUrl example_runtime validData)
                 ''PVEAPIToken=test-token'']\<rparr>"
  by (simp add: two_connecting_def connecting step_def fetch_validRequest server_upgrade_def
      websocket_open_def emit_def second_client_def Let_def)
     (simp add: validData_def headers_def startsWith_def)


subsection \<open>The authorization header\<close>

lemma startsWith_iff: "startsWith s p \<longleftrightarrow> (\<exists>r. s = p @ r)"
  unfolding startsWith_def
  by (metis append_eq_conv_conj append_take_drop_id)

text \<open>
  C8. For every ticket, the authorization header that \<^verbatim>\<open>open\<close> gives the upstream
  WebSocket is the ticket unchanged exactly when the ticket starts with
  \<^verbatim>\<open>PVEAPIToken=\<close>, and is \<^verbatim>\<open>PVEAuthCookie=\<close> followed by the ticket exactly when it does
  not; the upstream WebSocket is created with that header.
\<close>

theorem authorization_by_prefix:
  "(headers t = t \<longleftrightarrow> (\<exists>r. t = ''PVEAPIToken='' @ r))
   \<and> (headers t = ''PVEAuthCookie='' @ t \<longleftrightarrow> \<not> (\<exists>r. t = ''PVEAPIToken='' @ r))
   \<and> trace (websocket_open rt ws s) =
       trace s @ [new_WebSocket (next_id s) (constructWebsocketUrl rt (data ws))
                    (headers (ticket (data ws)))]"
proof -
  have "''PVEAuthCookie='' @ t \<noteq> t"
    by (metis append_self_conv2 list.distinct(1))
  then show ?thesis
    by (auto simp: headers_def startsWith_iff websocket_open_def emit_def Let_def)
qed

subsection \<open>The map of upstream sockets\<close>

lemma Map_get_set: "Map_get (Map_set m k v) k' = (if k' = k then Some v else Map_get m k')"
  by (induction m) auto

lemma Map_get_None_iff: "Map_get m k = None \<longleftrightarrow> k \<notin> fst ` set m"
  by (induction m) (force split: if_splits)+

lemma keys_Map_set: "fst ` set (Map_set m k v) = insert k (fst ` set m)"
  by (induction m) (force split: if_splits)+

lemma distinct_Map_set: "distinct (map fst m) \<Longrightarrow> distinct (map fst (Map_set m k v))"
  by (induction m) (auto simp: keys_Map_set)

lemma set_Map_delete: "set (Map_delete m k) \<subseteq> set m"
  by (induction m) (auto split: if_splits)

lemma keys_Map_delete: "(a, b) \<in> set (Map_delete m k) \<Longrightarrow> a \<in> fst ` set m"
  using set_Map_delete [of m k] by force

lemma distinct_Map_delete: "distinct (map fst m) \<Longrightarrow> distinct (map fst (Map_delete m k))"
proof (induction m)
  case Nil
  then show ?case by simp
next
  case (Cons e m)
  obtain a b where e: "e = (a, b)" by (cases e)
  have "a \<notin> fst ` set (Map_delete m k)"
    using Cons.prems e keys_Map_delete [of _ _ m k] by force
  with Cons e show ?case by simp
qed


lemma Map_get_delete_None: "Map_get m v = None \<Longrightarrow> Map_get (Map_delete m k) v = None"
  by (auto simp: Map_get_None_iff dest: keys_Map_delete)

lemma Map_delete_absent: "Map_get m k = None \<Longrightarrow> Map_delete m k = m"
  by (induction m) (auto split: if_splits)

lemma at_most_one: "distinct (map fst m) \<Longrightarrow> length (filter (\<lambda>e. fst e = k) m) \<le> 1"
  by (induction m) (auto simp: filter_empty_conv image_iff)

subsection \<open>What each handler does to the map\<close>

lemma sockets_emit [simp]: "sockets (emit e s) = sockets s"
  by (simp add: emit_def)

lemma sockets_websocket_close:
  "sockets (websocket_close ws c r s) = Map_delete (sockets s) (vmid (data ws))"
  by (simp add: websocket_close_def Map_delete_absent Let_def split: option.splits)

lemma sockets_ServerWebSocket_close:
  "sockets (ServerWebSocket_close ws c r s) =
     (if ws_id ws \<in> set (closed_ws s) then sockets s else Map_delete (sockets s) (vmid (data ws)))"
  by (simp add: ServerWebSocket_close_def sockets_websocket_close Let_def emit_def)

lemma sockets_websocket_open [simp]: "sockets (websocket_open rt ws s) = sockets s"
  by (simp add: websocket_open_def Let_def)

lemma sockets_fetch [simp]: "sockets (snd (fetch rt env r s)) = sockets s"
  by (simp add: fetch_def fetch_catch_def server_upgrade_def Let_def
      split: sum.splits option.splits exn.splits)

lemma sockets_websocket_message: "sockets (websocket_message ws m s) = sockets s"
  by (auto simp add: websocket_message_def sockets_ServerWebSocket_close Let_def Map_delete_absent
      emit_def split: option.splits)

lemma sockets_step_subset:
  "\<forall>p. e \<noteq> Upstream_open p \<Longrightarrow> set (sockets (step rt env e s)) \<subseteq> set (sockets s)"
  by (cases e) (auto simp: step_def sockets_websocket_message sockets_websocket_close
      sockets_ServerWebSocket_close pws_message_def pws_error_def pws_close_def
      split: option.splits dest: set_mp [OF set_Map_delete])

lemma distinct_step:
  "distinct (map fst (sockets s)) \<Longrightarrow> distinct (map fst (sockets (step rt env e s)))"
  by (cases e) (auto simp: step_def sockets_websocket_message sockets_websocket_close
      sockets_ServerWebSocket_close pws_message_def pws_error_def pws_close_def pws_open_def
      distinct_Map_delete distinct_Map_set
      split: option.splits)

lemma distinct_run:
  "distinct (map fst (sockets s)) \<Longrightarrow> distinct (map fst (sockets (run rt env es s)))"
  by (induction es arbitrary: s) (auto simp: distinct_step)

lemma step_keeps_absent:
  assumes "Map_get (sockets s) v = None"
    and "case e of
           Upstream_open p \<Rightarrow>
             (case Map_get (listeners s) p of None \<Rightarrow> True | Some ws \<Rightarrow> vmid (data ws) \<noteq> v)
         | _ \<Rightarrow> True"
  shows "Map_get (sockets (step rt env e s)) v = None"
  using assms
  by (cases e) (auto simp: step_def sockets_websocket_message sockets_websocket_close
      sockets_ServerWebSocket_close pws_message_def pws_error_def pws_close_def pws_open_def
      Map_get_delete_None Map_get_set split: option.splits)

lemma run_keeps_absent:
  "Map_get (sockets s) v = None \<Longrightarrow> no_open_for rt env v es s \<Longrightarrow>
   Map_get (sockets (run rt env es s)) v = None"
proof (induction es arbitrary: s)
  case Nil
  then show ?case by simp
next
  case (Cons e es)
  from Cons.prems have "Map_get (sockets (step rt env e s)) v = None"
    by (intro step_keeps_absent) simp_all
  with Cons show ?case by simp
qed

lemma message_without_upstream:
  assumes "Map_get (sockets s) (vmid (data ws)) = None" and "ws_id ws \<notin> set (closed_ws s)"
  shows "step rt env (Client_message ws m) s =
           s\<lparr>closed_ws := ws_id ws # closed_ws s,
              trace := trace s @
                [console_error (''Received a message for VM '' @ int_toString (vmid (data ws))
                   @ '' but no socket found. This should not happen.'') None,
                 ws_close (ws_id ws) 1011 ''Upstream websocket not found'']\<rparr>"
  using assms
  by (simp add: step_def websocket_message_def ServerWebSocket_close_def websocket_close_def
      emit_def Let_def)

text \<open>
  C6. After every sequence of events from the start of the server, the map holds at
  most one entry, hence at most one upstream connection, for a guest identifier. The
  open listener of an upstream WebSocket sets the entry of its guest to that WebSocket
  whatever the map held before, leaves every other entry as it is, and calls nothing:
  the connection it replaces is not closed.
\<close>

theorem registry_one_per_guest:
  "length (filter (\<lambda>e. fst e = k) (sockets (run rt env es init))) \<le> 1
   \<and> Map_get (sockets (pws_open ws pws s)) k' =
       (if k' = vmid (data ws) then Some pws else Map_get (sockets s) k')
   \<and> trace (pws_open ws pws s) = trace s"
proof -
  have "distinct (map fst (sockets (run rt env es init)))"
    by (rule distinct_run) (simp add: init_def)
  then have "length (filter (\<lambda>e. fst e = k) (sockets (run rt env es init))) \<le> 1"
    by (rule at_most_one)
  then show ?thesis
    by (simp add: pws_open_def Map_get_set)
qed






text \<open>
  C9. A frame of a client goes to the connection that the map holds for the client's
  guest when the frame arrives. So when the upstream WebSocket of a first session opens
  and then that of a second session of the same guest, a frame of the first client is
  sent on the upstream WebSocket of the second session.
\<close>

theorem frame_goes_to_registered_upstream:
  assumes "Map_get (listeners s) p1 = Some ws1"
    and "Map_get (listeners s) p2 = Some ws2"
    and "vmid (data ws2) = vmid (data ws1)"
    and "ws_id ws1 \<notin> set (closed_ws s)"
  shows "trace (run rt env [Upstream_open p1, Upstream_open p2, Client_message ws1 m] s) =
           trace s @ [socket_send p2 m]
         \<and> (\<forall>s' p. ws_id ws1 \<notin> set (closed_ws s') \<longrightarrow>
               Map_get (sockets s') (vmid (data ws1)) = Some p \<longrightarrow>
               step rt env (Client_message ws1 m) s' = emit (socket_send p m) s')"
  using assms
  by (auto simp: step_def pws_open_def websocket_message_def emit_def Map_get_set)

theorem frame_goes_to_registered_upstream_witness:
  "Map_get (listeners two_connecting) 1 = Some first_client
   \<and> Map_get (listeners two_connecting) 3 = Some second_client
   \<and> vmid (data second_client) = vmid (data first_client)
   \<and> ws_id first_client \<notin> set (closed_ws two_connecting)
   \<and> trace (run example_runtime (Some test_key)
        [Upstream_open 1, Upstream_open 3, Client_message first_client ''hello''] two_connecting) =
       trace two_connecting @ [socket_send 3 ''hello'']"
  using frame_goes_to_registered_upstream
    [of two_connecting 1 first_client 3 second_client example_runtime "Some test_key" "''hello''"]
  by (simp add: two_connecting first_client_def second_client_def)

text \<open>
  C10. Only the open event of an upstream WebSocket adds an entry to the map: every
  other event leaves the entries it found or fewer. So let a client of guest \<open>vmid d\<close> be
  upgraded while the map has no entry for that guest, and let the events that follow
  hold no open event of an upstream WebSocket of that guest. A frame of the client that
  arrives then, the client still being connected, is sent to no upstream connection:
  the relay logs the error, closes the client with code 1011 and the reason
  \<^verbatim>\<open>Upstream websocket not found\<close>, and the map still has no entry for the guest.
\<close>

theorem frame_before_upstream_open:
  assumes "Map_get (sockets s) (vmid d) = None"
    and "s1 = run rt env es (server_upgrade rt d s)"
    and "no_open_for rt env (vmid d) es (server_upgrade rt d s)"
    and "ws = \<lparr>ws_id = next_id s, data = d\<rparr>"
    and "ws_id ws \<notin> set (closed_ws s1)"
  shows "trace (step rt env (Client_message ws m) s1) =
           trace s1 @
             [console_error (''Received a message for VM '' @ int_toString (vmid d)
                @ '' but no socket found. This should not happen.'') None,
              ws_close (ws_id ws) 1011 ''Upstream websocket not found'']
         \<and> ws_id ws \<in> set (closed_ws (step rt env (Client_message ws m) s1))
         \<and> sockets (step rt env (Client_message ws m) s1) = sockets s1
         \<and> Map_get (sockets s1) (vmid d) = None
         \<and> (\<forall>e s'. (\<forall>p. e \<noteq> Upstream_open p) \<longrightarrow>
               set (sockets (step rt env e s')) \<subseteq> set (sockets s'))"
proof -
  have "Map_get (sockets (server_upgrade rt d s)) (vmid d) = None"
    using assms(1) by (simp add: server_upgrade_def)
  then have absent: "Map_get (sockets s1) (vmid (data ws)) = None"
    using assms(2,3,4) by (simp add: run_keeps_absent)
  have only: "\<forall>e s'. (\<forall>p. e \<noteq> Upstream_open p) \<longrightarrow>
      set (sockets (step rt env e s')) \<subseteq> set (sockets s')"
    by (simp add: sockets_step_subset)
  have d: "vmid (data ws) = vmid d"
    using assms(4) by simp
  note eq = message_without_upstream [OF absent assms(5), of rt env m, unfolded d]
  have "Map_get (sockets s1) (vmid d) = None"
    using absent d by simp
  with only show ?thesis
    unfolding eq by simp
qed

lemma connecting_upgrade:
  "connecting = run example_runtime (Some test_key)
     [Request \<lparr>http_method = ''GET'', payload_param = None\<rparr>]
     (server_upgrade example_runtime validData init)"
  by (simp add: connecting_def step_def fetch_validRequest) (simp add: fetch_def)

theorem frame_before_upstream_open_witness:
  "Map_get (sockets init) (vmid validData) = None
   \<and> no_open_for example_runtime (Some test_key) (vmid validData)
        [Request \<lparr>http_method = ''GET'', payload_param = None\<rparr>]
        (server_upgrade example_runtime validData init)
   \<and> first_client = \<lparr>ws_id = next_id init, data = validData\<rparr>
   \<and> ws_id first_client \<notin> set (closed_ws connecting)
   \<and> trace (step example_runtime (Some test_key) (Client_message first_client ''hello'') connecting) =
       trace connecting @
         [console_error ''Received a message for VM 1000 but no socket found. This should not happen.''
            None,
          ws_close 0 1011 ''Upstream websocket not found'']
   \<and> sockets (step example_runtime (Some test_key) (Client_message first_client ''hello'') connecting)
       = []"
proof -
  have hyps: "Map_get (sockets init) (vmid validData) = None"
    "no_open_for example_runtime (Some test_key) (vmid validData)
        [Request \<lparr>http_method = ''GET'', payload_param = None\<rparr>]
        (server_upgrade example_runtime validData init)"
    "first_client = \<lparr>ws_id = next_id init, data = validData\<rparr>"
    "ws_id first_client \<notin> set (closed_ws connecting)"
    by (simp_all add: init_def first_client_def connecting)
  have digits: "int_toString (vmid validData) = ''1000''"
    by (simp add: validData_def int_toString_def digit_char_def)
  from frame_before_upstream_open
    [OF hyps(1) connecting_upgrade hyps(2,3,4), of "''hello''"] hyps
  show ?thesis
    by (simp add: digits) (simp add: connecting first_client_def)
qed

end
